theory Spec2Isabelle
  imports Complex_Main "HOL-Library.Sublist" "HOL-Library.AList" "HOL-Library.Product_Lexorder"
begin

section \<open>Entity model (game\_state.py)\<close>

text \<open>
  The enums \<open>Role\<close> and \<open>GamePhase\<close> and the dataclasses \<open>Player\<close>, \<open>GameAction\<close> and
  \<open>GameState\<close>. Python dictionaries keep insertion order, so they are association lists
  that are read with \<open>map_of\<close> and written with \<open>AList.update\<close> (an existing key keeps its
  place, a new key goes to the end). The wall-clock \<open>timestamp\<close> of a \<open>GameAction\<close> is not
  modelled. A Python \<open>str\<close> is the list of the bytes of its UTF-8 encoding.
\<close>

text \<open>
  The values that \<open>json.loads\<close> can return. A float is its exact value, the negative
  zero, an infinity, or the one NaN object of the json module. The scalars are the values that can be hashed,
  and so the only ones that can be a key of a \<open>Counter\<close>; the keys of a JSON object are
  strings and are taken to be distinct.
\<close>

datatype pyfloat = Finite rat | NegZero | PosInf | NegInf | NaN

datatype scalar = SNone | SBool bool | SInt int | SFloat pyfloat | SStr string

datatype json = Scalar scalar | JList "json list" | JDict "(string \<times> json) list"

text \<open>
  A text that an f-string builds from a scalar. Python's \<open>str()\<close> of a float is kept as
  the piece \<open>FloatText\<close>; everything else is literal text.
\<close>

datatype piece = Lit string | FloatText pyfloat

datatype Role = MAFIA | DOCTOR | DETECTIVE | VILLAGER

datatype GamePhase =
  NIGHT | DAY_DISCUSSION | DAY_VOTING | DAY_DEFENSE | DAY_FINAL_VOTING | GAME_OVER

fun role_value :: "Role \<Rightarrow> string" where
  "role_value MAFIA = ''mafia''"
| "role_value DOCTOR = ''doctor''"
| "role_value DETECTIVE = ''detective''"
| "role_value VILLAGER = ''villager''"

record Player =
  name :: string
  personality :: string
  role :: Role
  is_alive :: bool
  votes_received :: nat

record GameAction =
  player_name :: string
  action_type :: string
  target :: "string option"
  message :: "piece list option"
  action_round :: nat

text \<open>
  One record of \<open>player_night_actions\<close> (the dict built by \<open>_track_player_night_action\<close>).
  The target and the reason are the values of the decision as they came. The detective's
  reason is the text \<open>f"{reason} (found: {role})"\<close>, kept as \<open>Found reason role\<close>.
\<close>

datatype reason_value = Given json | Found json string

record NightRecord =
  nr_round :: nat
  nr_action_type :: string
  nr_target :: json
  nr_reason :: reason_value

text \<open>One vote as stored in a voting-history entry (\<open>{'voter', 'target', 'reason'}\<close>).\<close>

record VoteEntry =
  voter :: string
  vote_target :: "string option"
  vote_reason :: string

text \<open>
  One entry of \<open>voting_history\<close>: the dict \<open>current_voting_round\<close>. The keys that the code
  adds only on some paths are optional fields.
\<close>

record VotingRound =
  vr_round :: nat
  vr_voting_round :: nat
  vr_votes :: "VoteEntry list"
  vr_final_votes :: "VoteEntry list"
  trial_candidate :: "string option"
  defense :: "string option"
  eliminated :: "string option"
  tied_candidates :: "string list option"
  tie_votes :: "nat option"

text \<open>
  \<open>mafia_target\<close> is only ever assigned \<open>None\<close> or a key of a \<open>Counter\<close>, so it is a scalar;
  \<open>doctor_save\<close> and \<open>detective_check\<close> are assigned the \<open>target\<close> of a decision, which
  can be any JSON value.
\<close>

record GameState =
  players :: "Player list"
  phase :: GamePhase
  round_number :: nat
  alive_players :: "string list"
  dead_players :: "string list"
  mafia_members :: "string list"
  mafia_target :: scalar
  doctor_save :: json
  detective_check :: json
  detective_results :: "(string \<times> string) list"
  discussion_messages :: "GameAction list"
  votes :: "(string \<times> string) list"
  vote_counts :: "(string \<times> nat) list"
  suspects_on_trial :: "string list"
  action_history :: "GameAction list"
  elimination_history :: "string list"
  player_night_actions :: "(string \<times> NightRecord list) list"
  voting_history :: "VotingRound list"
  winner :: "string option"

definition get_alive_players :: "GameState \<Rightarrow> Player list" where
  "get_alive_players gs = filter is_alive (players gs)"

definition get_player_by_name :: "GameState \<Rightarrow> string \<Rightarrow> Player option" where
  "get_player_by_name gs n = find (\<lambda>p. name p = n) (players gs)"

definition get_mafia_players :: "GameState \<Rightarrow> Player list" where
  "get_mafia_players gs = filter (\<lambda>p. role p = MAFIA \<and> is_alive p) (players gs)"

definition get_village_players :: "GameState \<Rightarrow> Player list" where
  "get_village_players gs = filter (\<lambda>p. role p \<noteq> MAFIA \<and> is_alive p) (players gs)"

text \<open>
  \<open>check_win_condition\<close>, branch for branch. The result is Python's \<open>Optional[str]\<close>.
  \<open>village_players[0]\<close> is read only under \<open>len(village_players) == 1\<close>, which is the
  one-element pattern here.
\<close>

definition check_win_condition :: "GameState \<Rightarrow> string option" where
  "check_win_condition gs =
    (let mafia_alive = length (get_mafia_players gs);
         village_alive = length (get_village_players gs);
         total_alive = mafia_alive + village_alive
     in if mafia_alive = 0 then Some ''village''
        else if mafia_alive > village_alive then Some ''mafia''
        else if mafia_alive = village_alive then
          (if total_alive = 2 then
             (case get_village_players gs of
                [remaining_villager] \<Rightarrow>
                  (if role remaining_villager = DOCTOR then Some ''tie'' else Some ''mafia'')
              | _ \<Rightarrow> None)
           else if total_alive = 4 \<and> mafia_alive = 2 then
             (let has_doctor = list_ex (\<lambda>p. role p = DOCTOR) (get_village_players gs)
              in if \<not> has_doctor then Some ''mafia'' else None)
           else None)
        else None)"

definition reset_votes :: "GameState \<Rightarrow> GameState" where
  "reset_votes gs =
     gs\<lparr>votes := [], vote_counts := [],
        players := map (\<lambda>p. p\<lparr>votes_received := 0\<rparr>) (players gs)\<rparr>"

text \<open>A player and a state to build concrete games from.\<close>

definition mk_player :: "string \<Rightarrow> Role \<Rightarrow> bool \<Rightarrow> Player" where
  "mk_player n r a =
     \<lparr>name = n, personality = '''', role = r, is_alive = a, votes_received = 0\<rparr>"

definition mk_state :: "Player list \<Rightarrow> GameState" where
  "mk_state ps =
     \<lparr>players = ps, phase = NIGHT, round_number = 1,
      alive_players = map name (filter is_alive ps), dead_players = map name (filter (\<lambda>p. \<not> is_alive p) ps),
      mafia_members = map name (filter (\<lambda>p. role p = MAFIA) ps),
      mafia_target = SNone, doctor_save = Scalar SNone, detective_check = Scalar SNone,
      detective_results = [], discussion_messages = [], votes = [], vote_counts = [],
      suspects_on_trial = [], action_history = [],
      elimination_history = map name (filter (\<lambda>p. \<not> is_alive p) ps),
      player_night_actions = [], voting_history = [], winner = None\<rparr>"

section \<open>Night phase (game\_orchestrator.py, role\_agents.py)\<close>

text \<open>
  What the code can raise: \<open>list.remove\<close> of an absent element is a \<open>ValueError\<close>,
  \<open>candidates[0]\<close> on an empty list an \<open>IndexError\<close>, a membership test or a subscript on
  a value of the wrong type and the hashing of a list or dict a \<open>TypeError\<close>, the conversion
  of a huge integer to a float an \<open>OverflowError\<close>, and a call into an agent or the
  language-model client can raise anything (\<open>Raised\<close> with its message).
\<close>

datatype error = ValueError | IndexError | TypeError | OverflowError | Raised string

text \<open>Python's truth value of an \<open>Optional[str]\<close>: \<open>None\<close> and the empty string are false.\<close>

definition truthy :: "string option \<Rightarrow> bool" where
  "truthy v = (case v of None \<Rightarrow> False | Some s \<Rightarrow> s \<noteq> [])"

text \<open>Python's truth value of a JSON value.\<close>

fun scalar_truthy :: "scalar \<Rightarrow> bool" where
  "scalar_truthy SNone = False"
| "scalar_truthy (SBool b) = b"
| "scalar_truthy (SInt i) = (i \<noteq> 0)"
| "scalar_truthy (SFloat f) = (f \<noteq> Finite 0 \<and> f \<noteq> NegZero)"
| "scalar_truthy (SStr s) = (s \<noteq> [])"

fun json_truthy :: "json \<Rightarrow> bool" where
  "json_truthy (Scalar s) = scalar_truthy s"
| "json_truthy (JList xs) = (xs \<noteq> [])"
| "json_truthy (JDict d) = (d \<noteq> [])"

text \<open>
  Equality of scalars as dictionary keys: \<open>None\<close> equals \<open>None\<close>, strings are equal as
  strings, and booleans, integers and floats are equal when their numeric values are
  (\<open>True == 1 == 1.0\<close>, \<open>0.0 == -0.0\<close>); the NaN of the json module is one object and so the same key.
  \<open>key_norm\<close> maps every number to its value, so that two scalars are the same key exactly
  when their images are equal.
\<close>

fun key_norm :: "scalar \<Rightarrow> scalar" where
  "key_norm (SBool b) = SFloat (Finite (if b then 1 else 0))"
| "key_norm (SInt i) = SFloat (Finite (of_int i))"
| "key_norm (SFloat NegZero) = SFloat (Finite 0)"
| "key_norm s = s"

text \<open>
  The operator \<open>==\<close> between a scalar and a JSON value: as for keys, except that NaN is
  not equal to itself; a scalar never equals a list or a dict.
\<close>

fun py_eq :: "scalar \<Rightarrow> json \<Rightarrow> bool" where
  "py_eq s (Scalar t) = (s \<noteq> SFloat NaN \<and> t \<noteq> SFloat NaN \<and> key_norm s = key_norm t)"
| "py_eq s (JList xs) = False"
| "py_eq s (JDict d) = False"

text \<open>\<open>str(n)\<close> of an integer, as the f-strings print it.\<close>

function str_nat :: "nat \<Rightarrow> string" where
  "str_nat n =
     (if n < 10 then [char_of (48 + n)]
      else str_nat (n div 10) @ [char_of (48 + n mod 10)])"
  by pat_completeness auto
termination
  by (relation "measure id") auto

definition str_int :: "int \<Rightarrow> string" where
  "str_int i = (if i < 0 then ''-'' @ str_nat (nat (- i)) else str_nat (nat i))"

text \<open>
  The text of a scalar inside an f-string, and the joining of the pieces of an f-string
  (neighbouring literal pieces become one).
\<close>

fun scalar_text :: "scalar \<Rightarrow> piece list" where
  "scalar_text SNone = [Lit ''None'']"
| "scalar_text (SBool b) = [Lit (if b then ''True'' else ''False'')]"
| "scalar_text (SInt i) = [Lit (str_int i)]"
| "scalar_text (SFloat f) = [FloatText f]"
| "scalar_text (SStr s) = [Lit s]"

fun join :: "piece list \<Rightarrow> piece list" where
  "join (Lit a # Lit b # rest) = join (Lit (a @ b) # rest)"
| "join (p # rest) = p # join rest"
| "join [] = []"

text \<open>The two emoji of the night announcements, as their UTF-8 bytes.\<close>

definition sunrise :: string where
  "sunrise = [char_of (0xF0::nat), char_of (0x9F::nat), char_of (0x8C::nat), char_of (0x85::nat)]"

definition skull :: string where
  "skull = [char_of (0xF0::nat), char_of (0x9F::nat), char_of (0x92::nat), char_of (0x80::nat)]"

definition add_action :: "GameState \<Rightarrow> string \<Rightarrow> piece list \<Rightarrow> GameState" where
  "add_action gs atype msg =
     gs\<lparr>action_history := action_history gs @
        [\<lparr>player_name = ''Game'', action_type = atype, target = None, message = Some msg,
          action_round = round_number gs\<rparr>]\<rparr>"

text \<open>\<open>player.is_alive = False\<close> on the object that \<open>get_player_by_name\<close> found: the first
  player of that name.\<close>

fun mark_dead :: "string \<Rightarrow> Player list \<Rightarrow> Player list" where
  "mark_dead n [] = []"
| "mark_dead n (p # ps) =
     (if name p = n then p\<lparr>is_alive := False\<rparr> # ps else p # mark_dead n ps)"

text \<open>
  \<open>_eliminate_player\<close> with a string. An unknown name is skipped by the \<open>if player:\<close>
  guard; a known player whose name is not in \<open>alive_players\<close> makes
  \<open>alive_players.remove\<close> raise.
\<close>

definition eliminate_player :: "GameState \<Rightarrow> string \<Rightarrow> error + GameState" where
  "eliminate_player gs player_name' =
     (case get_player_by_name gs player_name' of
        None \<Rightarrow> Inr gs
      | Some player \<Rightarrow>
          (if player_name' \<in> set (alive_players gs) then
             Inr (add_action
               (gs\<lparr>players := mark_dead player_name' (players gs),
                   alive_players := remove1 player_name' (alive_players gs),
                   dead_players := dead_players gs @ [player_name'],
                   elimination_history := elimination_history gs @ [player_name']\<rparr>)
               ''elimination'' [Lit (player_name' @ '' was eliminated'')])
           else Inl ValueError))"

text \<open>
  \<open>_eliminate_player\<close> with the night's target: \<open>get_player_by_name\<close> compares each
  player's name with it, and a string equals no value of another type.
\<close>

definition eliminate_target :: "GameState \<Rightarrow> scalar \<Rightarrow> error + GameState" where
  "eliminate_target gs tgt =
     (case tgt of SStr player_name' \<Rightarrow> eliminate_player gs player_name' | _ \<Rightarrow> Inr gs)"

definition track_player_night_action ::
  "GameState \<Rightarrow> string \<Rightarrow> string \<Rightarrow> json \<Rightarrow> reason_value \<Rightarrow> GameState" where
  "track_player_night_action gs pname atype tgt reason =
     (let old = (case map_of (player_night_actions gs) pname of None \<Rightarrow> [] | Some rs \<Rightarrow> rs);
          action_record = \<lparr>nr_round = round_number gs, nr_action_type = atype,
                           nr_target = tgt, nr_reason = reason\<rparr>
      in gs\<lparr>player_night_actions :=
              AList.update pname (old @ [action_record]) (player_night_actions gs)\<rparr>)"

text \<open>
  A night decision is what \<open>generate_json_response\<close> returned: any JSON value. The agents
  of role\_agents.py work out who may be targeted, put the names into the prompt, and
  return the model's reply as it is, or \<open>None\<close> when nobody may be targeted.
\<close>

definition MafiaAgent_make_night_decision :: "GameState \<Rightarrow> json \<Rightarrow> json" where
  "MafiaAgent_make_night_decision gs response =
     (let alive_non_mafia = map name (filter (\<lambda>p. role p \<noteq> MAFIA) (get_alive_players gs))
      in if alive_non_mafia = [] then Scalar SNone else response)"

definition DoctorAgent_make_night_decision :: "GameState \<Rightarrow> string \<Rightarrow> json \<Rightarrow> json" where
  "DoctorAgent_make_night_decision gs self_name response =
     (let alive_players' = filter (\<lambda>n. n \<noteq> self_name) (map name (get_alive_players gs))
      in if alive_players' = [] then Scalar SNone else response)"

definition DetectiveAgent_make_night_decision :: "GameState \<Rightarrow> string \<Rightarrow> json \<Rightarrow> json" where
  "DetectiveAgent_make_night_decision gs self_name response =
     (let alive_players' = filter (\<lambda>n. n \<noteq> self_name) (map name (get_alive_players gs));
          uninvestigated = filter (\<lambda>n. map_of (detective_results gs) n = None) alive_players'
      in if uninvestigated = [] then Scalar SNone else response)"

text \<open>
  \<open>if decision and 'target' in decision:\<close> followed by \<open>decision['target']\<close> and
  \<open>decision.get('reason', 'No reason given')\<close>. The result is the target and the reason,
  or nothing when the test fails. The membership test looks for the key in a dict, for
  the element in a list and for the substring in a string, and raises on a number or
  \<open>True\<close>; the subscript raises on a list or a string.
\<close>

fun read_decision :: "json \<Rightarrow> error + (json \<times> json) option" where
  "read_decision (JDict d) =
     (if d \<noteq> [] then
        (case map_of d ''target'' of
           None \<Rightarrow> Inr None
         | Some tgt \<Rightarrow>
             Inr (Some (tgt, case map_of d ''reason'' of
                               None \<Rightarrow> Scalar (SStr ''No reason given'') | Some r \<Rightarrow> r)))
      else Inr None)"
| "read_decision (JList xs) =
     (if xs \<noteq> [] \<and> Scalar (SStr ''target'') \<in> set xs then Inl TypeError else Inr None)"
| "read_decision (Scalar (SStr s)) =
     (if s \<noteq> [] \<and> sublist ''target'' s then Inl TypeError else Inr None)"
| "read_decision (Scalar s) = (if scalar_truthy s then Inl TypeError else Inr None)"

text \<open>
  \<open>collections.Counter\<close> over a list: a dict from element to count, keys in the order of
  their first occurrence; an element that equals an earlier key is counted under that
  key. \<open>most_common(1)\<close> is \<open>max\<close> over the items by count, and Python's \<open>max\<close> keeps the
  first of several maximal items.
\<close>

fun count_key :: "scalar \<Rightarrow> (scalar \<times> nat) list \<Rightarrow> (scalar \<times> nat) list" where
  "count_key x [] = [(x, 1)]"
| "count_key x ((k, n) # c) =
     (if key_norm k = key_norm x then (k, Suc n) # c else (k, n) # count_key x c)"

definition Counter :: "scalar list \<Rightarrow> (scalar \<times> nat) list" where
  "Counter xs = fold count_key xs []"




definition max_step :: "('a \<times> nat) \<Rightarrow> ('a \<times> nat) \<Rightarrow> ('a \<times> nat)" where
  "max_step item best = (if snd item > snd best then item else best)"

fun most_common1 :: "('a \<times> nat) list \<Rightarrow> ('a \<times> nat) option" where
  "most_common1 [] = None"
| "most_common1 (x # xs) = Some (fold max_step xs x)"

text \<open>The elements as hashable values; hashing a list or a dict raises.\<close>

fun hashable :: "json list \<Rightarrow> error + scalar list" where
  "hashable [] = Inr []"
| "hashable (Scalar s # rest) = (case hashable rest of Inl e \<Rightarrow> Inl e | Inr ss \<Rightarrow> Inr (s # ss))"
| "hashable (x # rest) = Inl TypeError"

text \<open>
  \<open>_mafia_night_action\<close>. The agents are the mafia members whose names are in
  \<open>alive_players\<close>; \<open>llm a\<close> is the reply of the language model to agent \<open>a\<close>, parsed. The
  dict \<open>proposals\<close> maps an agent's name to its target and reason.
\<close>

definition mafia_agents :: "GameState \<Rightarrow> string list" where
  "mafia_agents gs = filter (\<lambda>n. n \<in> set (alive_players gs)) (mafia_members gs)"

fun collect_proposals ::
  "(string \<Rightarrow> json) \<Rightarrow> string list \<Rightarrow> GameState \<Rightarrow> (string \<times> json \<times> json) list
     \<Rightarrow> error + (GameState \<times> (string \<times> json \<times> json) list)" where
  "collect_proposals llm [] gs proposals = Inr (gs, proposals)"
| "collect_proposals llm (agent # agents) gs proposals =
     (case read_decision (MafiaAgent_make_night_decision gs (llm agent)) of
        Inl e \<Rightarrow> Inl e
      | Inr None \<Rightarrow> collect_proposals llm agents gs proposals
      | Inr (Some (tgt, reason)) \<Rightarrow>
          collect_proposals llm agents
            (track_player_night_action gs agent ''mafia_propose'' tgt (Given reason))
            (AList.update agent (tgt, reason) proposals))"


definition mafia_night_action :: "GameState \<Rightarrow> (string \<Rightarrow> json) \<Rightarrow> error + GameState" where
  "mafia_night_action gs llm =
     (if mafia_agents gs = [] then Inr gs
      else
        (case collect_proposals llm (mafia_agents gs) gs [] of
           Inl e \<Rightarrow> Inl e
         | Inr (gs1, proposals) \<Rightarrow>
             if proposals \<noteq> [] then
               (case hashable (map (\<lambda>p. fst (snd p)) proposals) of
                  Inl e \<Rightarrow> Inl e
                | Inr targets \<Rightarrow>
                    (case most_common1 (Counter targets) of
                       None \<Rightarrow> Inr gs1
                     | Some (tgt, n) \<Rightarrow> Inr (gs1\<lparr>mafia_target := tgt\<rparr>)))
             else Inr gs1))"

text \<open>\<open>_doctor_night_action\<close>: the first agent with the doctor's role and a living name.\<close>

definition doctor_night_action :: "GameState \<Rightarrow> (string \<Rightarrow> json) \<Rightarrow> error + GameState" where
  "doctor_night_action gs llm =
     (case filter (\<lambda>p. role p = DOCTOR \<and> name p \<in> set (alive_players gs)) (players gs) of
        [] \<Rightarrow> Inr gs
      | doctor # _ \<Rightarrow>
          (case read_decision
                  (DoctorAgent_make_night_decision gs (name doctor) (llm (name doctor))) of
             Inl e \<Rightarrow> Inl e
           | Inr None \<Rightarrow> Inr gs
           | Inr (Some (tgt, reason)) \<Rightarrow>
               Inr (track_player_night_action (gs\<lparr>doctor_save := tgt\<rparr>)
                      (name doctor) ''doctor_save'' tgt (Given reason))))"

text \<open>
  \<open>_detective_night_action\<close>: the target's role is recorded when the target is the name
  of a player.
\<close>

definition detective_night_action :: "GameState \<Rightarrow> (string \<Rightarrow> json) \<Rightarrow> error + GameState" where
  "detective_night_action gs llm =
     (case filter (\<lambda>p. role p = DETECTIVE \<and> name p \<in> set (alive_players gs)) (players gs) of
        [] \<Rightarrow> Inr gs
      | detective # _ \<Rightarrow>
          (case read_decision
                  (DetectiveAgent_make_night_decision gs (name detective) (llm (name detective))) of
             Inl e \<Rightarrow> Inl e
           | Inr None \<Rightarrow> Inr gs
           | Inr (Some (tgt, reason)) \<Rightarrow>
               (let gs1 = gs\<lparr>detective_check := tgt\<rparr>
                in case tgt of
                     Scalar (SStr target_name) \<Rightarrow>
                       (case get_player_by_name gs1 target_name of
                          None \<Rightarrow> Inr gs1
                        | Some target_player \<Rightarrow>
                            Inr (track_player_night_action
                                   (gs1\<lparr>detective_results :=
                                          AList.update target_name (role_value (role target_player))
                                            (detective_results gs1)\<rparr>)
                                   (name detective) ''detective_investigate'' tgt
                                   (Found reason (role_value (role target_player)))))
                   | _ \<Rightarrow> Inr gs1)))"

text \<open>
  \<open>_resolve_night_actions\<close>. The second component of the result lists the messages that
  the call hands to \<open>_player_announce\<close>, the only channel the players see; the messages
  for the observer log are not modelled.
\<close>

definition night_summary :: "GameState \<Rightarrow> scalar \<Rightarrow> piece list" where
  "night_summary gs eliminated' =
     join ([Lit (''Night '' @ str_nat (round_number gs) @ '' completed. '')] @
       (if scalar_truthy eliminated' then scalar_text eliminated' @ [Lit '' eliminated'']
        else [Lit ''No one eliminated'']))"

definition resolve_night_actions :: "GameState \<Rightarrow> error + (GameState \<times> piece list list)" where
  "resolve_night_actions gs =
     (if scalar_truthy (mafia_target gs) then
        (if py_eq (mafia_target gs) (doctor_save gs) then
           (let gs1 = add_action gs ''night_save''
                        (join (scalar_text (mafia_target gs) @ [Lit '' was saved from elimination'']))
            in Inr (add_action gs1 ''night_summary'' (night_summary gs1 SNone),
                    [[Lit (sunrise @ '' No one was eliminated during the night'')]]))
         else
           (case eliminate_target gs (mafia_target gs) of
              Inl e \<Rightarrow> Inl e
            | Inr gs1 \<Rightarrow>
                Inr (add_action gs1 ''night_summary'' (night_summary gs1 (mafia_target gs)),
                     [join ([Lit (skull @ '' '')] @ scalar_text (mafia_target gs)
                              @ [Lit '' was eliminated during the night''])])))
      else Inr (add_action gs ''night_summary'' (night_summary gs SNone), []))"

text \<open>\<open>_run_night_phase\<close>: reset the three night fields, then the four steps in order.\<close>

definition run_night_phase ::
  "GameState \<Rightarrow> (string \<Rightarrow> json) \<Rightarrow> error + (GameState \<times> piece list list)" where
  "run_night_phase gs llm =
     (let gs0 = gs\<lparr>phase := NIGHT, mafia_target := SNone, doctor_save := Scalar SNone,
                   detective_check := Scalar SNone\<rparr>
      in case mafia_night_action gs0 llm of
           Inl e \<Rightarrow> Inl e
         | Inr gs1 \<Rightarrow>
             (case doctor_night_action gs1 llm of
                Inl e \<Rightarrow> Inl e
              | Inr gs2 \<Rightarrow>
                  (case detective_night_action gs2 llm of
                     Inl e \<Rightarrow> Inl e
                   | Inr gs3 \<Rightarrow> resolve_night_actions gs3)))"

text \<open>
  A game of six (Cy already eliminated) and replies of the language model for examples:
  a JSON object with a target and a reason.
\<close>

definition ex_players :: "Player list" where
  "ex_players =
     [mk_player ''Ann'' MAFIA True, mk_player ''Ben'' MAFIA True, mk_player ''Cy'' VILLAGER False,
      mk_player ''Di'' DOCTOR True, mk_player ''Eve'' DETECTIVE True, mk_player ''Fay'' VILLAGER True]"

definition ex_reply :: "string \<Rightarrow> string \<Rightarrow> json" where
  "ex_reply tgt reason = JDict [(''target'', Scalar (SStr tgt)), (''reason'', Scalar (SStr reason))]"



text \<open>
  Night states for examples: the mafia and the doctor both chose Fay; the mafia chose Fay
  and the doctor Di; the mafia chose Zed, who is no player.
\<close>

definition ex_save :: GameState where
  "ex_save = (mk_state ex_players)\<lparr>mafia_target := SStr ''Fay'', doctor_save := Scalar (SStr ''Fay'')\<rparr>"

definition ex_kill :: GameState where
  "ex_kill = (mk_state ex_players)\<lparr>mafia_target := SStr ''Fay'', doctor_save := Scalar (SStr ''Di'')\<rparr>"

definition ex_unknown :: GameState where
  "ex_unknown = (mk_state ex_players)\<lparr>mafia_target := SStr ''Zed'', doctor_save := Scalar (SStr ''Di'')\<rparr>"

text \<open>Replies in which both mafia members name Zed, who is no player, and the others Di.\<close>

definition ex_llm_zed :: "string \<Rightarrow> json" where
  "ex_llm_zed a =
     (if a = ''Ann'' \<or> a = ''Ben'' then ex_reply ''Zed'' ''hunch'' else ex_reply ''Di'' ''healer'')"

text \<open>Replies in which both mafia members and the detective name Cy, who is dead.\<close>

definition ex_llm_dead :: "string \<Rightarrow> json" where
  "ex_llm_dead a =
     (if a = ''Ann'' \<or> a = ''Ben'' \<or> a = ''Eve'' then ex_reply ''Cy'' ''hunch''
      else ex_reply ''Di'' ''myself'')"

section \<open>Voting, trial and defense (game\_orchestrator.py, role\_agents.py)\<close>

text \<open>
  \<open>str.lower\<close> follows the Unicode case tables, which are not defined here: it is the
  parameter \<open>lower\<close> of every function below that calls it, and what is proved of these
  functions holds for every \<open>lower\<close>. On a string of ASCII characters \<open>str.lower\<close> maps the
  letters A to Z to a to z and leaves the rest; \<open>ascii_lower\<close> is that function, for the
  examples, whose names are ASCII. Python's substring test \<open>a in b\<close> is \<open>sublist a b\<close>.
\<close>

definition lower_char :: "char \<Rightarrow> char" where
  "lower_char c =
     (let n = (of_char c :: nat) in if 65 \<le> n \<and> n \<le> 90 then char_of (n + 32) else c)"

definition ascii_lower :: "string \<Rightarrow> string" where
  "ascii_lower s = map lower_char s"

text \<open>
  The loop \<open>for candidate in candidates: if candidate.lower() in target.lower(): ...; break\<close>
  of the agents' \<open>vote\<close> and of \<open>_run_final_voting\<close>: the first candidate whose lower-cased
  name occurs in the lower-cased target.
\<close>

definition closest_match :: "(string \<Rightarrow> string) \<Rightarrow> string list \<Rightarrow> string \<Rightarrow> string option" where
  "closest_match lower candidates tgt =
     find (\<lambda>candidate. sublist (lower candidate) (lower tgt)) candidates"

text \<open>\<open>VoteDecision\<close> of structured\_responses.py: what the language model answered.\<close>

datatype VoteDecision = VoteDecision (vd_target: string) (vd_reason: string)

text \<open>What \<open>agent.vote\<close> hands to the orchestrator: a dict, or a bare string (old format).\<close>

datatype vote_result = VoteDict string string | VoteStr string

text \<open>
  \<open>vote\<close> of the four agent classes of role\_agents.py (the same code in each), given the
  model's answer. \<open>candidates[0]\<close> raises on an empty list.
\<close>

definition agent_vote ::
  "(string \<Rightarrow> string) \<Rightarrow> string list \<Rightarrow> VoteDecision \<Rightarrow> error + vote_result" where
  "agent_vote lower candidates vote_decision =
     (if vd_target vote_decision \<notin> set candidates then
        (case candidates of
           [] \<Rightarrow> Inl IndexError
         | first # _ \<Rightarrow>
             Inr (VoteDict
               (case closest_match lower candidates (vd_target vote_decision) of
                  None \<Rightarrow> first
                | Some candidate \<Rightarrow> candidate)
               (vd_reason vote_decision)))
      else Inr (VoteDict (vd_target vote_decision) (vd_reason vote_decision)))"

text \<open>
  The collaborators of one voting phase. Each request may raise. \<open>ask_vote r a cs\<close> is
  \<open>agent.vote\<close> of voter \<open>a\<close> with candidates \<open>cs\<close> in sub-round \<open>r\<close>, \<open>ask_defense r s\<close> is
  \<open>defend_self\<close> of suspect \<open>s\<close>, and \<open>ask_final r a cs\<close> is the structured answer of the
  language model to voter \<open>a\<close>'s final-vote prompt.
\<close>

record Collaborator =
  ask_vote :: "nat \<Rightarrow> string \<Rightarrow> string list \<Rightarrow> error + vote_result"
  ask_defense :: "nat \<Rightarrow> string \<Rightarrow> error + string"
  ask_final :: "nat \<Rightarrow> string \<Rightarrow> string list \<Rightarrow> error + VoteDecision"

text \<open>\<open>votes[voter] = target\<close> and \<open>vote_counts[target] = vote_counts.get(target, 0) + 1\<close>.\<close>

definition cast_vote :: "GameState \<Rightarrow> string \<Rightarrow> string \<Rightarrow> GameState" where
  "cast_vote gs agent_name tgt =
     gs\<lparr>votes := AList.update agent_name tgt (votes gs),
        vote_counts := AList.update tgt
          (case map_of (vote_counts gs) tgt of None \<Rightarrow> 1 | Some n \<Rightarrow> n + 1) (vote_counts gs)\<rparr>"

definition self_vote_reason :: "string \<Rightarrow> string" where
  "self_vote_reason fallback = ''Cannot vote for self, voting '' @ fallback @ '' instead''"

text \<open>
  The body of the initial-vote loop for one voter, after \<open>agent.vote\<close> returned: the state,
  the dict \<open>vote_reasons\<close> and the sub-round's record. A target that is neither a candidate
  nor the voter is dropped.
\<close>

definition initial_vote_step ::
  "string list \<Rightarrow> string \<Rightarrow> vote_result \<Rightarrow> GameState \<times> (string \<times> string) list \<times> VotingRound
     \<Rightarrow> GameState \<times> (string \<times> string) list \<times> VotingRound" where
  "initial_vote_step alive agent_name vote_result st =
     (case st of (gs, vote_reasons, cur) \<Rightarrow>
       (let candidates = filter (\<lambda>p. p \<noteq> agent_name) alive;
            vote_target' = (case vote_result of VoteDict t r \<Rightarrow> t | VoteStr t \<Rightarrow> t);
            vote_reason' = (case vote_result of VoteDict t r \<Rightarrow> r | VoteStr t \<Rightarrow> ''No reason given'')
        in if vote_target' \<in> set candidates then
             (cast_vote gs agent_name vote_target',
              AList.update agent_name vote_reason' vote_reasons,
              cur\<lparr>vr_votes := vr_votes cur @
                 [\<lparr>voter = agent_name, vote_target = Some vote_target', vote_reason = vote_reason'\<rparr>]\<rparr>)
           else if vote_target' = agent_name then
             (case candidates of
                [] \<Rightarrow> st
              | fallback_target # _ \<Rightarrow>
                  if fallback_target \<noteq> [] then
                    (cast_vote gs agent_name fallback_target,
                     AList.update agent_name (self_vote_reason fallback_target) vote_reasons,
                     cur\<lparr>vr_votes := vr_votes cur @
                        [\<lparr>voter = agent_name, vote_target = Some fallback_target,
                          vote_reason = self_vote_reason fallback_target\<rparr>]\<rparr>)
                  else st)
           else st))"

text \<open>The loop \<open>for agent_name in alive_players\<close> of a sub-round's initial vote.\<close>

fun initial_votes ::
  "(string \<Rightarrow> string list \<Rightarrow> error + vote_result) \<Rightarrow> string list \<Rightarrow> string list
     \<Rightarrow> GameState \<times> (string \<times> string) list \<times> VotingRound
     \<Rightarrow> error + (GameState \<times> (string \<times> string) list \<times> VotingRound)" where
  "initial_votes ask alive [] st = Inr st"
| "initial_votes ask alive (agent_name # rest) st =
     (case ask agent_name (filter (\<lambda>p. p \<noteq> agent_name) alive) of
        Inl e \<Rightarrow> Inl e
      | Inr vote_result \<Rightarrow> initial_votes ask alive rest (initial_vote_step alive agent_name vote_result st))"

text \<open>
  The target and the reason that \<open>_run_final_voting\<close> settles on for one voter. In the
  synthetic reason an absent fallback prints as \<open>None\<close>.
\<close>

definition final_vote_choice ::
  "(string \<Rightarrow> string) \<Rightarrow> string list \<Rightarrow> string \<Rightarrow> VoteDecision \<Rightarrow> string option \<times> string" where
  "final_vote_choice lower candidates agent_name vote_decision =
     (if vd_target vote_decision \<in> set candidates then
        (Some (vd_target vote_decision), vd_reason vote_decision)
      else if vd_target vote_decision = agent_name then
        (case candidates of
           [] \<Rightarrow> (None, self_vote_reason ''None'')
         | first # _ \<Rightarrow> (Some first, self_vote_reason first))
      else
        (case closest_match lower candidates (vd_target vote_decision) of
           Some candidate \<Rightarrow> (Some candidate, vd_reason vote_decision)
         | None \<Rightarrow>
             (case candidates of
                [] \<Rightarrow> (None, vd_reason vote_decision)
              | first # _ \<Rightarrow> (Some first, vd_reason vote_decision))))"

text \<open>\<open>target_player.votes_received += 1\<close> on the first player of that name.\<close>

fun bump_votes_received :: "string \<Rightarrow> Player list \<Rightarrow> Player list" where
  "bump_votes_received n [] = []"
| "bump_votes_received n (p # ps) =
     (if name p = n then p\<lparr>votes_received := votes_received p + 1\<rparr> # ps
      else p # bump_votes_received n ps)"

definition final_vote_step ::
  "(string \<Rightarrow> string) \<Rightarrow> string list \<Rightarrow> string \<Rightarrow> VoteDecision \<Rightarrow> GameState \<times> (string \<times> string) list \<times> VotingRound
     \<Rightarrow> GameState \<times> (string \<times> string) list \<times> VotingRound" where
  "final_vote_step lower alive agent_name vote_decision st =
     (case st of (gs, vote_reasons, cur) \<Rightarrow>
       (let candidates = filter (\<lambda>p. p \<noteq> agent_name) alive;
            (vote_target', reason) = final_vote_choice lower candidates agent_name vote_decision;
            gs1 = (case vote_target' of
                     Some t \<Rightarrow> if t \<noteq> [] then cast_vote gs agent_name t else gs
                   | None \<Rightarrow> gs);
            vote_reasons1 = (if truthy vote_target' then AList.update agent_name reason vote_reasons
                             else vote_reasons);
            gs2 = (case vote_target' of
                     Some t \<Rightarrow> gs1\<lparr>players := bump_votes_received t (players gs1)\<rparr>
                   | None \<Rightarrow> gs1)
        in (gs2, vote_reasons1,
            cur\<lparr>vr_final_votes := vr_final_votes cur @
               [\<lparr>voter = agent_name, vote_target = vote_target', vote_reason = reason\<rparr>]\<rparr>)))"

fun final_votes ::
  "(string \<Rightarrow> string) \<Rightarrow> (string \<Rightarrow> string list \<Rightarrow> error + VoteDecision) \<Rightarrow> string list \<Rightarrow> string list
     \<Rightarrow> GameState \<times> (string \<times> string) list \<times> VotingRound
     \<Rightarrow> error + (GameState \<times> (string \<times> string) list \<times> VotingRound)" where
  "final_votes lower ask alive [] st = Inr st"
| "final_votes lower ask alive (agent_name # rest) st =
     (case ask agent_name (filter (\<lambda>p. p \<noteq> agent_name) alive) of
        Inl e \<Rightarrow> Inl e
      | Inr vote_decision \<Rightarrow>
          final_votes lower ask alive rest (final_vote_step lower alive agent_name vote_decision st))"

text \<open>
  \<open>max(vote_counts.values())\<close> on a non-empty dict of positive counts, and the names that
  reach it, in the dict's order.
\<close>

definition max_votes :: "(string \<times> nat) list \<Rightarrow> nat" where
  "max_votes counts = fold max (map snd counts) 0"

definition top_suspects :: "(string \<times> nat) list \<Rightarrow> string list" where
  "top_suspects counts = map fst (filter (\<lambda>(n, v). v = max_votes counts) counts)"

text \<open>\<open>_run_defense_phase\<close>: the defense text is taken as it comes and put on record.\<close>

definition run_defense_phase ::
  "(string \<Rightarrow> error + string) \<Rightarrow> GameState \<Rightarrow> string \<Rightarrow> error + (GameState \<times> string)" where
  "run_defense_phase ask gs suspect =
     (case ask suspect of
        Inl e \<Rightarrow> Inl e
      | Inr defense_text \<Rightarrow>
          Inr (add_action (gs\<lparr>phase := DAY_DEFENSE\<rparr>) ''defense''
                 [Lit (suspect @ '' defended: '' @ defense_text)], defense_text))"

text \<open>\<open>_run_final_voting\<close>: the updated state and record, and the eliminated name if any.\<close>

definition run_final_voting ::
  "(string \<Rightarrow> string) \<Rightarrow> (string \<Rightarrow> string list \<Rightarrow> error + VoteDecision) \<Rightarrow> GameState \<Rightarrow> string list \<Rightarrow> VotingRound
     \<Rightarrow> error + (GameState \<times> VotingRound \<times> string option)" where
  "run_final_voting lower ask gs alive voting_round_data =
     (case final_votes lower ask alive alive
             (reset_votes (gs\<lparr>phase := DAY_FINAL_VOTING\<rparr>), [], voting_round_data) of
        Inl e \<Rightarrow> Inl e
      | Inr (gs1, vote_reasons, cur) \<Rightarrow>
          if vote_counts gs1 \<noteq> [] then
            (case top_suspects (vote_counts gs1) of
               [eliminated_player] \<Rightarrow>
                 (case eliminate_player gs1 eliminated_player of
                    Inl e \<Rightarrow> Inl e
                  | Inr gs2 \<Rightarrow> Inr (gs2, cur, Some eliminated_player))
             | _ \<Rightarrow> Inr (gs1, cur, None))
          else Inr (gs1, cur, None))"

text \<open>
  One pass of the body of \<open>while voting_round <= 3\<close> in \<open>_run_voting_phase\<close>. The flag of
  the result says whether the body returned from the function (\<open>True\<close>) or fell through to
  \<open>voting_round += 1\<close> (\<open>False\<close>).
\<close>

definition voting_subround ::
  "(string \<Rightarrow> string) \<Rightarrow> Collaborator \<Rightarrow> string list \<Rightarrow> nat \<Rightarrow> GameState \<Rightarrow> error + (GameState \<times> bool)" where
  "voting_subround lower col alive voting_round gs =
     (let current_voting_round =
            \<lparr>vr_round = round_number gs, vr_voting_round = voting_round, vr_votes = [],
             vr_final_votes = [], trial_candidate = None, defense = None, eliminated = None,
             tied_candidates = None, tie_votes = None\<rparr>
      in case initial_votes (ask_vote col voting_round) alive alive
                (reset_votes gs, [], current_voting_round) of
           Inl e \<Rightarrow> Inl e
         | Inr (gs1, vote_reasons, cur1) \<Rightarrow>
             if vote_counts gs1 \<noteq> [] then
               (let max_votes' = max_votes (vote_counts gs1);
                    suspects = top_suspects (vote_counts gs1);
                    gs2 = gs1\<lparr>suspects_on_trial := suspects\<rparr>
                in case suspects of
                     [suspect] \<Rightarrow>
                       (case run_defense_phase (ask_defense col voting_round) gs2 suspect of
                          Inl e \<Rightarrow> Inl e
                        | Inr (gs3, defense_text) \<Rightarrow>
                            (case run_final_voting lower (ask_final col voting_round) gs3 alive
                                    (cur1\<lparr>trial_candidate := Some suspect,
                                          defense := Some defense_text\<rparr>) of
                               Inl e \<Rightarrow> Inl e
                             | Inr (gs4, cur2, eliminated') \<Rightarrow>
                                 if truthy eliminated' then
                                   Inr (gs4\<lparr>voting_history := voting_history gs4 @
                                              [cur2\<lparr>eliminated := eliminated'\<rparr>]\<rparr>, True)
                                 else Inr (gs4, False)))
                   | _ \<Rightarrow>
                       (let gs3 = gs2\<lparr>voting_history := voting_history gs2 @
                                        [cur1\<lparr>tied_candidates := Some suspects,
                                              tie_votes := Some max_votes'\<rparr>]\<rparr>
                        in Inr (gs3, voting_round = 3)))
             else Inr (gs1, False))"

text \<open>The loop \<open>while voting_round <= 3\<close>.\<close>

function voting_rounds ::
  "(string \<Rightarrow> string) \<Rightarrow> Collaborator \<Rightarrow> string list \<Rightarrow> nat \<Rightarrow> GameState \<Rightarrow> error + GameState" where
  "voting_rounds lower col alive voting_round gs =
     (if voting_round \<le> 3 then
        (case voting_subround lower col alive voting_round gs of
           Inl e \<Rightarrow> Inl e
         | Inr (gs1, returned) \<Rightarrow>
             if returned then Inr gs1 else voting_rounds lower col alive (voting_round + 1) gs1)
      else Inr gs)"
  by pat_completeness auto
termination
  by (relation "measure (\<lambda>(lower, col, alive, voting_round, gs). 4 - voting_round)") auto

text \<open>\<open>_run_voting_phase\<close>: the alive names are read once, from the players' flags.\<close>

definition run_voting_phase ::
  "(string \<Rightarrow> string) \<Rightarrow> Collaborator \<Rightarrow> GameState \<Rightarrow> error + GameState" where
  "run_voting_phase lower col gs =
     (let gs1 = reset_votes (gs\<lparr>phase := DAY_VOTING\<rparr>);
          alive = map name (get_alive_players gs1)
      in voting_rounds lower col alive 1 gs1)"


text \<open>
  What a sub-round holds for one voter, to state its properties: the voter's entry in the
  vote map, the voter's entry in \<open>vote_reasons\<close>, and the voter's entries in the record of
  the initial vote or of the final vote. \<open>tally gs t\<close> is \<open>vote_counts.get(t, 0)\<close>, and
  \<open>votes_for gs t\<close> is the number of voters whose entry in the vote map is \<open>t\<close>.
\<close>

definition initial_ballot ::
  "string \<Rightarrow> GameState \<times> (string \<times> string) list \<times> VotingRound
     \<Rightarrow> string option \<times> string option \<times> VoteEntry list" where
  "initial_ballot a st =
     (map_of (votes (fst st)) a, map_of (fst (snd st)) a,
      filter (\<lambda>e. voter e = a) (vr_votes (snd (snd st))))"

definition final_ballot ::
  "string \<Rightarrow> GameState \<times> (string \<times> string) list \<times> VotingRound
     \<Rightarrow> string option \<times> string option \<times> VoteEntry list" where
  "final_ballot a st =
     (map_of (votes (fst st)) a, map_of (fst (snd st)) a,
      filter (\<lambda>e. voter e = a) (vr_final_votes (snd (snd st))))"

definition tally :: "GameState \<Rightarrow> string \<Rightarrow> nat" where
  "tally gs t = (case map_of (vote_counts gs) t of None \<Rightarrow> 0 | Some n \<Rightarrow> n)"

definition votes_for :: "GameState \<Rightarrow> string \<Rightarrow> nat" where
  "votes_for gs t = length (filter (\<lambda>e. snd e = t) (votes gs))"

text \<open>
  A day with four living players. In every sub-round the initial votes put Ben on trial
  (Ben 2, Ann 1, Di 1); the final vote of sub-round 1 ties Ben and Ann two to two, and the
  final vote of sub-round 2 goes three to one against Ben.
\<close>

definition ex_four :: GameState where
  "ex_four = mk_state [mk_player ''Ann'' MAFIA True, mk_player ''Ben'' VILLAGER True,
                       mk_player ''Di'' DOCTOR True, mk_player ''Eve'' DETECTIVE True]"

definition ex_initial_target :: "string \<Rightarrow> string" where
  "ex_initial_target a =
     (if a = ''Ann'' then ''Ben'' else if a = ''Ben'' then ''Ann''
      else if a = ''Di'' then ''Ben'' else ''Di'')"

definition ex_final_target :: "nat \<Rightarrow> string \<Rightarrow> string" where
  "ex_final_target r a =
     (if a = ''Ann'' then ''Ben'' else if a = ''Ben'' then ''Ann''
      else if a = ''Di'' then ''Ben'' else if r = 1 then ''Ann'' else ''Ben'')"

definition ex_col_final_tie :: Collaborator where
  "ex_col_final_tie =
     \<lparr>ask_vote = (\<lambda>r a candidates. Inr (VoteDict (ex_initial_target a) ''suspicious'')),
      ask_defense = (\<lambda>r s. Inr ''I am innocent''),
      ask_final = (\<lambda>r a candidates. Inr (VoteDecision (ex_final_target r a) ''after the defense''))\<rparr>"

text \<open>The same day, but Di's vote request raises.\<close>

definition ex_col_raise :: Collaborator where
  "ex_col_raise =
     ex_col_final_tie\<lparr>ask_vote :=
        (\<lambda>r a candidates. if a = ''Di'' then Inl (Raised ''timeout'')
                          else Inr (VoteDict (ex_initial_target a) ''suspicious''))\<rparr>"




text \<open>
  Answers of the language model in which Eve's target is a sentence that holds Ben's name
  in capitals.
\<close>

definition ex_llm_shout :: "string \<Rightarrow> VoteDecision" where
  "ex_llm_shout a =
     (if a = ''Eve'' then VoteDecision ''I think BEN did it'' ''hunch''
      else VoteDecision (ex_initial_target a) ''suspicious'')"

definition ex_round :: VotingRound where
  "ex_round =
     \<lparr>vr_round = 1, vr_voting_round = 1, vr_votes = [], vr_final_votes = [],
      trial_candidate = None, defense = None, eliminated = None, tied_candidates = None,
      tie_votes = None\<rparr>"

section \<open>Discussion scheduler (game\_orchestrator.py)\<close>

text \<open>
  \<open>DiscussionResponse\<close> of structured\_responses.py, and what \<open>participate_in_discussion\<close>
  can hand back: \<open>None\<close>, a structured response, or a bare string (old format).
\<close>

record DiscussionResponse =
  speak :: bool
  comment :: string
  urgency :: int

datatype discussion_reply = NoReply | Structured DiscussionResponse | OldFormat string

text \<open>An agent as the scheduler uses it: its name and its role.\<close>

record Agent =
  a_name :: string
  a_role :: Role

text \<open>
  What one pass of the loop receives from outside: the agents in the order in which their
  requests completed (\<open>as_completed\<close>), each agent's reply or the text \<open>str(e)\<close> of the
  exception it raised, and the values of \<open>random.random()\<close>, one for each speaking
  candidate in list order.
\<close>

record RoundInput =
  arrival :: "Agent list"
  reply :: "string \<Rightarrow> string + discussion_reply"
  draw :: "nat \<Rightarrow> rat"

text \<open>
  The state of \<open>_run_discussion_phase\<close>: the game state, the speaking counts, the two loop
  counters, and the messages handed to \<open>_observer_info\<close> (messages for the players are
  not modelled).
\<close>

record Discussion =
  d_state :: GameState
  speaking_counts :: "(string \<times> nat) list"
  total_rounds :: nat
  consecutive_silent_rounds :: nat
  observer_log :: "string list"

text \<open>
  \<open>get_agent_response\<close> and the loop over the completed futures: an exception is logged and
  counts as \<open>None\<close>; a structured response is kept; a non-empty string becomes a response
  that speaks with urgency 3.
\<close>

definition response_errors :: "RoundInput \<Rightarrow> string list" where
  "response_errors inp =
     concat (map (\<lambda>agent. case reply inp (a_name agent) of
                    Inl e \<Rightarrow> [''Error getting response from '' @ a_name agent @ '': '' @ e]
                  | Inr r \<Rightarrow> []) (arrival inp))"

definition agent_responses :: "RoundInput \<Rightarrow> (Agent \<times> DiscussionResponse) list" where
  "agent_responses inp =
     concat (map (\<lambda>agent. case reply inp (a_name agent) of
                    Inl e \<Rightarrow> []
                  | Inr NoReply \<Rightarrow> []
                  | Inr (Structured response) \<Rightarrow> [(agent, response)]
                  | Inr (OldFormat text) \<Rightarrow>
                      if text \<noteq> [] then [(agent, \<lparr>speak = True, comment = text, urgency = 3\<rparr>)]
                      else []) (arrival inp))"

text \<open>\<open>self.speaking_counts.get(agent.name, 0)\<close>.\<close>

definition speak_count :: "(string \<times> nat) list \<Rightarrow> string \<Rightarrow> nat" where
  "speak_count counts n = (case map_of counts n of None \<Rightarrow> 0 | Some k \<Rightarrow> k)"

text \<open>
  \<open>max(1, resp.urgency - speak_count * 0.5)\<close>, which Python computes in floating point. When
  the urgency and the count are at most \<open>2 ^ 51\<close> in magnitude, the two conversions to a
  float, the product and the difference are exact: every value is a multiple of one half
  below \<open>2 ^ 52\<close>, which 53 bits hold. Outside that range a conversion rounds, or raises
  \<open>OverflowError\<close> when the integer is beyond the floats; what the expression gives there
  is not defined here: it is the parameter \<open>float_adjust\<close>, and what is proved holds for
  every \<open>float_adjust\<close>.
\<close>

definition adjusted_urgency ::
  "(int \<Rightarrow> nat \<Rightarrow> error + rat) \<Rightarrow> (string \<times> nat) list \<Rightarrow> Agent \<Rightarrow> DiscussionResponse
     \<Rightarrow> error + rat" where
  "adjusted_urgency float_adjust counts agent resp =
     (let speak_count' = speak_count counts (a_name agent);
          frequency_penalty = of_nat speak_count' * (1 / 2)
      in if \<bar>urgency resp\<bar> \<le> 2 ^ 51 \<and> speak_count' \<le> 2 ^ 51 then
           Inr (max 1 (of_int (urgency resp) - frequency_penalty))
         else float_adjust (urgency resp) speak_count')"

text \<open>
  The loop \<open>for agent, resp in agent_responses\<close> that builds \<open>speaking_agents\<close>; an
  \<open>OverflowError\<close> of the arithmetic is raised in the main thread, outside every handler.
\<close>

fun adjust_all ::
  "(int \<Rightarrow> nat \<Rightarrow> error + rat) \<Rightarrow> (string \<times> nat) list \<Rightarrow> (Agent \<times> DiscussionResponse) list
     \<Rightarrow> error + (Agent \<times> DiscussionResponse \<times> rat) list" where
  "adjust_all float_adjust counts [] = Inr []"
| "adjust_all float_adjust counts ((agent, resp) # rest) =
     (if speak resp then
        (case adjusted_urgency float_adjust counts agent resp of
           Inl e \<Rightarrow> Inl e
         | Inr adjusted \<Rightarrow>
             (case adjust_all float_adjust counts rest of
                Inl e \<Rightarrow> Inl e
              | Inr others \<Rightarrow> Inr ((agent, resp, adjusted) # others)))
      else adjust_all float_adjust counts rest)"

definition speaking_agents ::
  "(int \<Rightarrow> nat \<Rightarrow> error + rat) \<Rightarrow> (string \<times> nat) list \<Rightarrow> RoundInput
     \<Rightarrow> error + (Agent \<times> DiscussionResponse \<times> rat) list" where
  "speaking_agents float_adjust counts inp = adjust_all float_adjust counts (agent_responses inp)"

text \<open>
  \<open>speaking_agents.sort(key=lambda x: (x[2], random.random()), reverse=True)\<close>: a stable
  sort, descending in the pair of adjusted urgency and random draw, which is ascending in
  the pair of their negations under the lexicographic order.
\<close>

definition sort_speakers ::
  "RoundInput \<Rightarrow> (Agent \<times> DiscussionResponse \<times> rat) list \<Rightarrow> (Agent \<times> DiscussionResponse \<times> rat) list" where
  "sort_speakers inp speaking =
     map snd (sort_key (\<lambda>(i, x). (- snd (snd x), - draw inp i)) (enumerate 0 speaking))"

definition ranked_speakers ::
  "(int \<Rightarrow> nat \<Rightarrow> error + rat) \<Rightarrow> (string \<times> nat) list \<Rightarrow> RoundInput
     \<Rightarrow> error + (Agent \<times> DiscussionResponse \<times> rat) list" where
  "ranked_speakers float_adjust counts inp =
     map_sum id (sort_speakers inp) (speaking_agents float_adjust counts inp)"

text \<open>One pass of the body of the \<open>while\<close> loop.\<close>

definition discussion_round ::
  "(int \<Rightarrow> nat \<Rightarrow> error + rat) \<Rightarrow> RoundInput \<Rightarrow> Discussion \<Rightarrow> error + Discussion" where
  "discussion_round float_adjust inp d =
     (let d1 = d\<lparr>observer_log := observer_log d @ response_errors inp\<rparr>
      in case ranked_speakers float_adjust (speaking_counts d) inp of
           Inl e \<Rightarrow> Inl e
         | Inr [] \<Rightarrow>
             Inr (d1\<lparr>consecutive_silent_rounds := consecutive_silent_rounds d + 1,
                     observer_log := observer_log d1 @
                       [''No one chose to speak this round (silence #''
                          @ str_nat (consecutive_silent_rounds d + 1) @ '')'']\<rparr>)
         | Inr ((agent, response, adjusted) # _) \<Rightarrow>
             Inr (d1\<lparr>consecutive_silent_rounds := 0,
                     speaking_counts := AList.update (a_name agent)
                       (speak_count (speaking_counts d) (a_name agent) + 1) (speaking_counts d),
                     observer_log := observer_log d1 @
                       [a_name agent @ '' ('' @ role_value (a_role agent) @ ''): '' @ comment response],
                     d_state := (d_state d)\<lparr>discussion_messages := discussion_messages (d_state d) @
                       [\<lparr>player_name = a_name agent, action_type = ''discussion'', target = None,
                         message = Some [Lit (comment response)],
                         action_round = round_number (d_state d)\<rparr>]\<rparr>,
                     total_rounds := total_rounds d + 1\<rparr>))"

text \<open>
  The loop \<open>while total_rounds < max_total_rounds and consecutive_silent_rounds < 3\<close>.
  \<open>inputs i\<close> is what pass number \<open>i\<close> receives; the result also tells how many passes
  were made.
\<close>

function discussion_loop ::
  "(int \<Rightarrow> nat \<Rightarrow> error + rat) \<Rightarrow> (nat \<Rightarrow> RoundInput) \<Rightarrow> int \<Rightarrow> nat \<Rightarrow> Discussion
     \<Rightarrow> error + (nat \<times> Discussion)" where
  "discussion_loop float_adjust inputs max_total_rounds i d =
     (if int (total_rounds d) < max_total_rounds \<and> consecutive_silent_rounds d < 3 then
        (case discussion_round float_adjust (inputs i) d of
           Inl e \<Rightarrow> Inl e
         | Inr d1 \<Rightarrow> discussion_loop float_adjust inputs max_total_rounds (i + 1) d1)
      else Inr (i, d))"
  by pat_completeness auto
termination
  by (relation "measures [\<lambda>(float_adjust, inputs, m, i, d). nat (m - int (total_rounds d)),
                          \<lambda>(float_adjust, inputs, m, i, d). 3 - consecutive_silent_rounds d]")
     (auto simp: discussion_round_def Let_def split: list.splits prod.splits sum.splits)

text \<open>The agents whose names are in \<open>alive_players\<close>, in the order of the players.\<close>

definition alive_agents :: "GameState \<Rightarrow> Agent list" where
  "alive_agents gs =
     map (\<lambda>p. \<lparr>a_name = name p, a_role = role p\<rparr>)
       (filter (\<lambda>p. name p \<in> set (alive_players gs)) (players gs))"

text \<open>\<open>_run_discussion_phase\<close>, with \<open>max_discussion_rounds\<close> as configured.\<close>

definition discussion_start :: "GameState \<Rightarrow> Discussion" where
  "discussion_start gs =
     \<lparr>d_state = gs,
      speaking_counts = fold (\<lambda>n. AList.update n 0) (alive_players gs) [],
      total_rounds = 0, consecutive_silent_rounds = 0, observer_log = []\<rparr>"

definition run_discussion_phase ::
  "(int \<Rightarrow> nat \<Rightarrow> error + rat) \<Rightarrow> GameState \<Rightarrow> int \<Rightarrow> (nat \<Rightarrow> RoundInput)
     \<Rightarrow> error + (nat \<times> Discussion)" where
  "run_discussion_phase float_adjust gs max_discussion_rounds inputs =
     (let max_total_rounds = max_discussion_rounds * int (length (alive_agents gs))
      in discussion_loop float_adjust inputs max_total_rounds 0 (discussion_start gs))"

text \<open>The state after the first \<open>k\<close> passes of a phase, if the loop makes that many.\<close>

fun discussion_after ::
  "(int \<Rightarrow> nat \<Rightarrow> error + rat) \<Rightarrow> (nat \<Rightarrow> RoundInput) \<Rightarrow> nat \<Rightarrow> Discussion \<Rightarrow> error + Discussion" where
  "discussion_after float_adjust inputs 0 d = Inr d"
| "discussion_after float_adjust inputs (Suc k) d =
     (case discussion_after float_adjust inputs k d of
        Inl e \<Rightarrow> Inl e
      | Inr dk \<Rightarrow> discussion_round float_adjust (inputs k) dk)"

text \<open>
  The words of the specification about a phase, on its inputs. A pass is silent when no
  response that arrives wants to speak. \<open>rounds_spoken inputs k\<close> counts the passes among
  the first \<open>k\<close> that are not silent, \<open>three_silent inputs k\<close> says that the last three of
  the first \<open>k\<close> passes were silent, and \<open>times_spoken gs d n\<close> counts the utterances of
  \<open>n\<close> that the transcript of \<open>d\<close> holds beyond the transcript of \<open>gs\<close>, the state in which
  the phase began.
\<close>

definition silent_pass :: "RoundInput \<Rightarrow> bool" where
  "silent_pass inp = (filter (\<lambda>(agent, resp). speak resp) (agent_responses inp) = [])"

definition rounds_spoken :: "(nat \<Rightarrow> RoundInput) \<Rightarrow> nat \<Rightarrow> nat" where
  "rounds_spoken inputs k = length (filter (\<lambda>j. \<not> silent_pass (inputs j)) [0..<k])"

definition three_silent :: "(nat \<Rightarrow> RoundInput) \<Rightarrow> nat \<Rightarrow> bool" where
  "three_silent inputs k =
     (3 \<le> k \<and> silent_pass (inputs (k - 1)) \<and> silent_pass (inputs (k - 2))
        \<and> silent_pass (inputs (k - 3)))"

definition times_spoken :: "GameState \<Rightarrow> Discussion \<Rightarrow> string \<Rightarrow> nat" where
  "times_spoken gs d n =
     length (filter (\<lambda>m. player_name m = n)
               (drop (length (discussion_messages gs)) (discussion_messages (d_state d))))"

text \<open>
  Discussion examples. In \<open>ex_talk\<close> Ann and Ben both want to speak with urgency 1, and
  the random draw favours Ann; in \<open>ex_quiet\<close> Ann has nothing to say and Ben's request
  raises; in \<open>ex_huge\<close> Ann's urgency is \<open>2 ^ 1024\<close>. \<open>ex_inputs\<close> is a phase whose passes 1
  and 3 are \<open>ex_talk\<close> and whose other passes are \<open>ex_quiet\<close>; \<open>ex_all_talk\<close> is a phase
  whose every pass is \<open>ex_talk\<close>. \<open>ex_float\<close> stands for the float arithmetic beyond the
  exact range: the conversion of \<open>2 ^ 1024\<close> raises.
\<close>

definition ex_two :: GameState where
  "ex_two = mk_state [mk_player ''Ann'' MAFIA True, mk_player ''Ben'' VILLAGER True]"

definition ex_talk :: RoundInput where
  "ex_talk =
     \<lparr>arrival = [\<lparr>a_name = ''Ann'', a_role = MAFIA\<rparr>, \<lparr>a_name = ''Ben'', a_role = VILLAGER\<rparr>],
      reply = (\<lambda>n. Inr (Structured \<lparr>speak = True, comment = ''I have a hunch'', urgency = 1\<rparr>)),
      draw = (\<lambda>i. if i = 0 then 9 / 10 else 1 / 10)\<rparr>"

definition ex_quiet :: RoundInput where
  "ex_quiet =
     \<lparr>arrival = [\<lparr>a_name = ''Ann'', a_role = MAFIA\<rparr>, \<lparr>a_name = ''Ben'', a_role = VILLAGER\<rparr>],
      reply = (\<lambda>n. if n = ''Ben'' then Inl ''timeout'' else Inr NoReply),
      draw = (\<lambda>i. 0)\<rparr>"

definition ex_huge :: RoundInput where
  "ex_huge =
     ex_talk\<lparr>reply :=
        (\<lambda>n. Inr (Structured \<lparr>speak = True, comment = ''I have a hunch'',
                              urgency = (if n = ''Ann'' then 2 ^ 1024 else 1)\<rparr>))\<rparr>"

definition ex_inputs :: "nat \<Rightarrow> RoundInput" where
  "ex_inputs k = (if k = 1 \<or> k = 3 then ex_talk else ex_quiet)"

definition ex_all_quiet :: "nat \<Rightarrow> RoundInput" where
  "ex_all_quiet k = ex_quiet"

definition ex_all_talk :: "nat \<Rightarrow> RoundInput" where
  "ex_all_talk k = ex_talk"

definition ex_all_huge :: "nat \<Rightarrow> RoundInput" where
  "ex_all_huge k = ex_huge"

definition ex_float :: "int \<Rightarrow> nat \<Rightarrow> error + rat" where
  "ex_float u c = Inl OverflowError"

section \<open>The language-model interface on a failed call (llm\_interface.py)\<close>

text \<open>
  \<open>generate_response\<close> catches every exception of its \<open>try\<close> block and returns a fixed
  error text. \<open>api\<close> is the outcome of the block: the exception, or the text that the block
  returns, which is the content of the model's message after \<open>strip()\<close>.
\<close>

definition generate_response :: "error + string \<Rightarrow> string" where
  "generate_response api =
     (case api of
        Inl e \<Rightarrow> ''ERROR: Could not generate response''
      | Inr content \<Rightarrow> content)"

text \<open>
  \<open>generate_structured_response\<close> for \<open>VoteDecision\<close>, whose two fields are strings. A
  field is looked up with \<open>re.search\<close> for the pattern that starts with the literal
  \<open>- name:\<close>; there is no match unless the literal occurs in the text, and a field with
  no match gets the empty string. What \<open>match.group(1).strip()\<close> gives for a match is
  the parameter \<open>search\<close>.
\<close>

definition parse_field :: "(string \<Rightarrow> string \<Rightarrow> string option) \<Rightarrow> string \<Rightarrow> string \<Rightarrow> string" where
  "parse_field search field_name response_text =
     (if sublist (''- '' @ field_name @ '':'') response_text then
        (case search field_name response_text of Some v \<Rightarrow> v | None \<Rightarrow> [])
      else [])"

definition generate_vote_decision ::
  "(string \<Rightarrow> string \<Rightarrow> string option) \<Rightarrow> error + string \<Rightarrow> VoteDecision" where
  "generate_vote_decision search api =
     (let response_text = generate_response api
      in VoteDecision (parse_field search ''target'' response_text)
                      (parse_field search ''reason'' response_text))"

text \<open>The same day once more, with initial votes that tie Ben and Ann in every sub-round.\<close>

definition ex_col_tie :: Collaborator where
  "ex_col_tie =
     ex_col_final_tie\<lparr>ask_vote :=
        (\<lambda>r a candidates. Inr (VoteDict (ex_final_target 1 a) ''suspicious''))\<rparr>"

section \<open>Win condition evaluator\<close>

lemma one_element_list: "length xs = Suc 0 \<Longrightarrow> \<exists>x. xs = [x]"
  by (cases xs) auto

text \<open>
  Claim C1. With K the number of alive mafia players and V the number of alive players of
  any other role: the evaluator answers village when K = 0; mafia when K > V; when K = V
  and two players are alive, tie if the one villager-side player is the doctor and mafia
  otherwise; when K = V and four players are alive, mafia if no doctor is among the
  villager side and no verdict if a doctor is; and no verdict in every remaining case.
\<close>

theorem check_win_condition_cases:
  fixes gs :: GameState
  defines "K \<equiv> length (get_mafia_players gs)"
      and "V \<equiv> length (get_village_players gs)"
  shows "(K = 0 \<longrightarrow> check_win_condition gs = Some ''village'')
       \<and> (K > V \<longrightarrow> check_win_condition gs = Some ''mafia'')
       \<and> (K = V \<and> K + V = 2 \<longrightarrow>
            (\<exists>p. get_village_players gs = [p]
               \<and> check_win_condition gs = (if role p = DOCTOR then Some ''tie'' else Some ''mafia'')))
       \<and> (K = V \<and> K + V = 4 \<longrightarrow>
            check_win_condition gs =
              (if \<exists>p \<in> set (get_village_players gs). role p = DOCTOR then None else Some ''mafia''))
       \<and> (K \<noteq> 0 \<and> \<not> K > V \<and> \<not> (K = V \<and> (K + V = 2 \<or> K + V = 4)) \<longrightarrow>
            check_win_condition gs = None)"
proof (intro conjI impI)
  assume "K = 0"
  then show "check_win_condition gs = Some ''village''"
    by (simp add: check_win_condition_def K_def)
next
  assume "K > V"
  then show "check_win_condition gs = Some ''mafia''"
    by (auto simp: check_win_condition_def K_def V_def Let_def)
next
  assume h: "K = V \<and> K + V = 2"
  then have len: "length (get_village_players gs) = Suc 0" and k: "K = Suc 0"
    by (auto simp: V_def)
  from len obtain p where p: "get_village_players gs = [p]"
    using one_element_list by blast
  have "check_win_condition gs = (if role p = DOCTOR then Some ''tie'' else Some ''mafia'')"
    using k p by (simp add: check_win_condition_def K_def Let_def)
  with p show "\<exists>p. get_village_players gs = [p]
      \<and> check_win_condition gs = (if role p = DOCTOR then Some ''tie'' else Some ''mafia'')"
    by blast
next
  assume h: "K = V \<and> K + V = 4"
  then have "K = 2" and "V = 2" by auto
  then show "check_win_condition gs =
      (if \<exists>p \<in> set (get_village_players gs). role p = DOCTOR then None else Some ''mafia'')"
    by (simp add: check_win_condition_def K_def V_def Let_def list_ex_iff)
next
  assume h: "K \<noteq> 0 \<and> \<not> K > V \<and> \<not> (K = V \<and> (K + V = 2 \<or> K + V = 4))"
  then show "check_win_condition gs = None"
    by (auto simp: check_win_condition_def K_def V_def Let_def)
qed

text \<open>
  The theorem at seven concrete games, one for each verdict path: no mafia; two mafia against
  one villager; mafia against the doctor; mafia against the detective; two mafia against
  two villagers without and with the doctor; and one mafia against two villagers.
\<close>

theorem check_win_condition_cases_witness:
  "check_win_condition (mk_state [mk_player ''Ann'' DOCTOR True, mk_player ''Ben'' MAFIA False])
      = Some ''village''
   \<and> check_win_condition (mk_state [mk_player ''Ann'' MAFIA True, mk_player ''Ben'' MAFIA True,
        mk_player ''Cy'' VILLAGER True]) = Some ''mafia''
   \<and> check_win_condition (mk_state [mk_player ''Ann'' MAFIA True, mk_player ''Ben'' DOCTOR True])
      = Some ''tie''
   \<and> check_win_condition (mk_state [mk_player ''Ann'' MAFIA True, mk_player ''Ben'' DETECTIVE True])
      = Some ''mafia''
   \<and> check_win_condition (mk_state [mk_player ''Ann'' MAFIA True, mk_player ''Ben'' MAFIA True,
        mk_player ''Cy'' VILLAGER True, mk_player ''Di'' DETECTIVE True]) = Some ''mafia''
   \<and> check_win_condition (mk_state [mk_player ''Ann'' MAFIA True, mk_player ''Ben'' MAFIA True,
        mk_player ''Cy'' VILLAGER True, mk_player ''Di'' DOCTOR True]) = None
   \<and> check_win_condition (mk_state [mk_player ''Ann'' MAFIA True, mk_player ''Ben'' VILLAGER True,
        mk_player ''Cy'' DOCTOR True]) = None"
  using
    check_win_condition_cases [of "mk_state [mk_player ''Ann'' DOCTOR True, mk_player ''Ben'' MAFIA False]"]
    check_win_condition_cases [of "mk_state [mk_player ''Ann'' MAFIA True, mk_player ''Ben'' MAFIA True,
        mk_player ''Cy'' VILLAGER True]"]
    check_win_condition_cases [of "mk_state [mk_player ''Ann'' MAFIA True, mk_player ''Ben'' DOCTOR True]"]
    check_win_condition_cases [of "mk_state [mk_player ''Ann'' MAFIA True, mk_player ''Ben'' DETECTIVE True]"]
    check_win_condition_cases [of "mk_state [mk_player ''Ann'' MAFIA True, mk_player ''Ben'' MAFIA True,
        mk_player ''Cy'' VILLAGER True, mk_player ''Di'' DETECTIVE True]"]
    check_win_condition_cases [of "mk_state [mk_player ''Ann'' MAFIA True, mk_player ''Ben'' MAFIA True,
        mk_player ''Cy'' VILLAGER True, mk_player ''Di'' DOCTOR True]"]
    check_win_condition_cases [of "mk_state [mk_player ''Ann'' MAFIA True, mk_player ''Ben'' VILLAGER True,
        mk_player ''Cy'' DOCTOR True]"]
  by (simp add: get_mafia_players_def get_village_players_def mk_state_def mk_player_def)

section \<open>Killer consensus\<close>


























lemma track_players [simp]:
  "players (track_player_night_action gs a ty t r) = players gs"
  "mafia_target (track_player_night_action gs a ty t r) = mafia_target gs"
  by (simp_all add: track_player_night_action_def Let_def)

lemma mafia_decision_track [simp]:
  "MafiaAgent_make_night_decision (track_player_night_action gs a ty t r) resp
     = MafiaAgent_make_night_decision gs resp"
  by (simp add: MafiaAgent_make_night_decision_def get_alive_players_def)











section \<open>Night resolution\<close>

text \<open>
  The two outcomes of a night whose target is a living player. The mafia and the doctor
  both chose Fay: nobody is eliminated, and the players are told only that no one was
  eliminated. The mafia chose Fay and the doctor Di: Fay's flag is cleared and her name
  moves from the alive list to the end of the dead list and of the elimination history.
\<close>

lemma night_save_example:
  "map_sum id (\<lambda>(g, announced). (alive_players g, dead_players g, elimination_history g,
                                  map is_alive (players g), announced))
     (resolve_night_actions ex_save)
   = Inr ([''Ann'', ''Ben'', ''Di'', ''Eve'', ''Fay''], [''Cy''], [''Cy''],
          [True, True, False, True, True, True],
          [[Lit (sunrise @ '' No one was eliminated during the night'')]])"
  by code_simp

lemma night_kill_example:
  "map_sum id (\<lambda>(g, announced). (alive_players g, dead_players g, elimination_history g,
                                  map is_alive (players g), announced))
     (resolve_night_actions ex_kill)
   = Inr ([''Ann'', ''Ben'', ''Di'', ''Eve''], [''Cy'', ''Fay''], [''Cy'', ''Fay''],
          [True, True, False, True, True, False],
          [[Lit (skull @ '' Fay was eliminated during the night'')]])"
  by code_simp

text \<open>
  Claim C2 at a night in which both mafia members name Zed, who is no player, and the
  doctor saves Di. The consensus target Zed differs from the save target, and nobody is
  eliminated: the alive list, the dead list, the elimination history and the players'
  flags are as before. The players are nevertheless told that Zed was eliminated during
  the night, and the night's summary in the action history says the same.
\<close>

theorem unknown_target_announced:
  "map_sum id mafia_target (mafia_night_action (mk_state ex_players) ex_llm_zed) = Inr (SStr ''Zed'')
   \<and> get_player_by_name (mk_state ex_players) ''Zed'' = None
   \<and> map_sum id (\<lambda>(g, announced). (mafia_target g, doctor_save g, alive_players g, dead_players g,
                      elimination_history g, map is_alive (players g), announced,
                      message (last (action_history g))))
        (run_night_phase (mk_state ex_players) ex_llm_zed)
      = Inr (SStr ''Zed'', Scalar (SStr ''Di''), [''Ann'', ''Ben'', ''Di'', ''Eve'', ''Fay''], [''Cy''],
             [''Cy''], [True, True, False, True, True, True],
             [[Lit (skull @ '' Zed was eliminated during the night'')]],
             Some [Lit ''Night 1 completed. Zed eliminated''])
   \<and> map_sum id (\<lambda>(g, announced). (alive_players g, announced)) (resolve_night_actions ex_unknown)
      = Inr ([''Ann'', ''Ben'', ''Di'', ''Eve'', ''Fay''],
             [[Lit (skull @ '' Zed was eliminated during the night'')]])"
  by code_simp

text \<open>
  Claim C9 at a night in which both mafia members and the detective name Cy, who is
  already dead: the consensus target becomes Cy although Cy is not alive, the detective's
  findings record Cy, and the resolution raises \<open>ValueError\<close> from
  \<open>alive_players.remove\<close>.
\<close>

theorem night_target_unvalidated:
  "map_sum id mafia_target (mafia_night_action (mk_state ex_players) ex_llm_dead) = Inr (SStr ''Cy'')
   \<and> ''Cy'' \<notin> set (alive_players (mk_state ex_players))
   \<and> map_sum id detective_results (detective_night_action (mk_state ex_players) ex_llm_dead)
        = Inr [(''Cy'', ''villager'')]
   \<and> run_night_phase (mk_state ex_players) ex_llm_dead = Inl ValueError"
  by code_simp

section \<open>Voting: the ballots of a sub-round\<close>


lemma update_new_key: "k \<notin> fst ` set al \<Longrightarrow> AList.update k v al = al @ [(k, v)]"
  by (induction al) auto

lemma map_of_cast_vote: "map_of (votes (cast_vote gs a c)) a = Some c"
  by (simp add: cast_vote_def update_conv')

lemma keys_cast_vote: "fst ` set (votes (cast_vote gs a c)) = insert a (fst ` set (votes gs))"
  by (simp add: cast_vote_def AList.dom_update)


lemma tally_cast_vote:
  assumes inv: "\<forall>t. tally gs t = votes_for gs t" and new: "a \<notin> fst ` set (votes gs)"
  shows "\<forall>t. tally (cast_vote gs a c) t = votes_for (cast_vote gs a c) t"
proof
  fix t
  have 1: "tally (cast_vote gs a c) t = (if t = c then tally gs c + 1 else tally gs t)"
    by (simp add: tally_def cast_vote_def update_conv' split: option.splits)
  have "votes (cast_vote gs a c) = votes gs @ [(a, c)]"
    using new by (simp add: cast_vote_def update_new_key)
  then have 2: "votes_for (cast_vote gs a c) t = (if t = c then votes_for gs c + 1 else votes_for gs t)"
    by (simp add: votes_for_def)
  from 1 2 inv show "tally (cast_vote gs a c) t = votes_for (cast_vote gs a c) t" by simp
qed

text \<open>The initial vote.\<close>

lemma initial_vote_step_cases:
  "fst (initial_vote_step alive a v st) = fst st
   \<or> (\<exists>c \<in> set (filter (\<lambda>p. p \<noteq> a) alive). fst (initial_vote_step alive a v st) = cast_vote (fst st) a c)"
proof -
  obtain gs rs cur where st: "st = (gs, rs, cur)" by (cases st)
  define cands where "cands = filter (\<lambda>p. p \<noteq> a) alive"
  define tg where "tg = (case v of VoteDict t r \<Rightarrow> t | VoteStr t \<Rightarrow> t)"
  note defs = initial_vote_step_def Let_def cands_def [symmetric] tg_def [symmetric]
  show ?thesis
  proof (cases "tg \<in> set cands")
    case True
    then have "fst (initial_vote_step alive a v st) = cast_vote (fst st) a tg"
      using st by (simp add: defs)
    with True show ?thesis unfolding cands_def by blast
  next
    case False
    show ?thesis
    proof (cases cands)
      case Nil
      then have "fst (initial_vote_step alive a v st) = fst st"
        using False st by (simp add: defs)
      then show ?thesis by blast
    next
      case (Cons c0 cs)
      then have c0: "c0 \<in> set cands" by simp
      have "fst (initial_vote_step alive a v st) = fst st
          \<or> fst (initial_vote_step alive a v st) = cast_vote (fst st) a c0"
        using False st Cons by (simp add: defs)
      with c0 show ?thesis unfolding cands_def by blast
    qed
  qed
qed



lemma initial_vote_step_tally:
  assumes "\<forall>t. tally (fst st) t = votes_for (fst st) t" and "a \<notin> fst ` set (votes (fst st))"
  shows "(\<forall>t. tally (fst (initial_vote_step alive a v st)) t
                = votes_for (fst (initial_vote_step alive a v st)) t)
       \<and> fst ` set (votes (fst (initial_vote_step alive a v st))) \<subseteq> insert a (fst ` set (votes (fst st)))"
proof -
  from initial_vote_step_cases [of alive a v st] show ?thesis
  proof
    assume "fst (initial_vote_step alive a v st) = fst st"
    with assms show ?thesis by auto
  next
    assume "\<exists>c \<in> set (filter (\<lambda>p. p \<noteq> a) alive).
        fst (initial_vote_step alive a v st) = cast_vote (fst st) a c"
    then obtain c where c: "fst (initial_vote_step alive a v st) = cast_vote (fst st) a c" by blast
    show ?thesis unfolding c using tally_cast_vote [OF assms] by (simp add: keys_cast_vote)
  qed
qed

lemma initial_votes_tally:
  assumes "distinct voters" and "set voters \<inter> fst ` set (votes (fst st)) = {}"
      and "\<forall>t. tally (fst st) t = votes_for (fst st) t"
      and "initial_votes ask alive voters st = Inr st'"
  shows "\<forall>t. tally (fst st') t = votes_for (fst st') t"
  using assms
proof (induction voters arbitrary: st)
  case Nil
  then show ?case by simp
next
  case (Cons a voters)
  from Cons.prems(4) obtain vr where vr: "ask a (filter (\<lambda>p. p \<noteq> a) alive) = Inr vr"
      and rest: "initial_votes ask alive voters (initial_vote_step alive a vr st) = Inr st'"
    by (auto split: sum.splits)
  have new: "a \<notin> fst ` set (votes (fst st))" using Cons.prems(2) by auto
  note s = initial_vote_step_tally [OF Cons.prems(3) new, of alive vr]
  have d: "distinct voters" using Cons.prems(1) by simp
  have sub: "fst ` set (votes (fst (initial_vote_step alive a vr st))) \<subseteq> insert a (fst ` set (votes (fst st)))"
    using s by blast
  have na: "a \<notin> set voters" using Cons.prems(1) by simp
  have disj: "set voters \<inter> fst ` set (votes (fst st)) = {}" using Cons.prems(2) by auto
  have k: "set voters \<inter> fst ` set (votes (fst (initial_vote_step alive a vr st))) = {}"
    using sub na disj by blast
  from Cons.IH [OF d k _ rest] s show ?case by blast
qed

lemma initial_step_other:
  "b \<noteq> a \<Longrightarrow> initial_ballot a (initial_vote_step alive b v st) = initial_ballot a st"
  by (cases st)
     (auto simp: initial_ballot_def initial_vote_step_def Let_def cast_vote_def update_conv'
           split: list.splits)

lemma initial_votes_other:
  "a \<notin> set voters \<Longrightarrow> initial_votes ask alive voters st = Inr st' \<Longrightarrow>
     initial_ballot a st' = initial_ballot a st"
proof (induction voters arbitrary: st)
  case Nil
  then show ?case by simp
next
  case (Cons b voters)
  from Cons.prems(2) obtain vr where
      rest: "initial_votes ask alive voters (initial_vote_step alive b vr st) = Inr st'"
    by (auto split: sum.splits)
  from Cons.prems(1) have "b \<noteq> a" "a \<notin> set voters" by auto
  from Cons.IH [OF this(2) rest] initial_step_other [OF this(1)] show ?case by simp
qed

lemma initial_votes_at:
  assumes "distinct voters" and "a \<in> set voters"
      and "initial_votes ask alive voters st = Inr st'"
  shows "\<exists>v st1. ask a (filter (\<lambda>p. p \<noteq> a) alive) = Inr v
           \<and> initial_ballot a st1 = initial_ballot a st
           \<and> initial_ballot a st' = initial_ballot a (initial_vote_step alive a v st1)"
  using assms
proof (induction voters arbitrary: st)
  case Nil
  then show ?case by simp
next
  case (Cons b voters)
  from Cons.prems(3) obtain vr where vr: "ask b (filter (\<lambda>p. p \<noteq> b) alive) = Inr vr"
      and rest: "initial_votes ask alive voters (initial_vote_step alive b vr st) = Inr st'"
    by (auto split: sum.splits)
  show ?case
  proof (cases "b = a")
    case True
    have "a \<notin> set voters" using Cons.prems(1) True by simp
    from initial_votes_other [OF this rest]
    have "initial_ballot a st' = initial_ballot a (initial_vote_step alive a vr st)"
      using True by simp
    with vr True show ?thesis by blast
  next
    case False
    with Cons.prems have "distinct voters" "a \<in> set voters" by auto
    from Cons.IH [OF this rest] obtain v st1 where
      "ask a (filter (\<lambda>p. p \<noteq> a) alive) = Inr v"
      "initial_ballot a st1 = initial_ballot a (initial_vote_step alive b vr st)"
      "initial_ballot a st' = initial_ballot a (initial_vote_step alive a v st1)"
      by blast
    with initial_step_other [OF False, of alive vr st] show ?thesis by metis
  qed
qed

lemma initial_step_cast:
  assumes "initial_ballot a st = (None, None, [])"
      and "t \<in> set (filter (\<lambda>p. p \<noteq> a) alive)"
      and "v = VoteDict t r \<or> (v = VoteStr t \<and> r = ''No reason given'')"
  shows "initial_ballot a (initial_vote_step alive a v st)
           = (Some t, Some r, [\<lparr>voter = a, vote_target = Some t, vote_reason = r\<rparr>])"
  using assms
  by (cases st)
     (auto simp: initial_ballot_def initial_vote_step_def Let_def cast_vote_def update_conv')


lemma reset_ballot:
  "vr_votes cur = [] \<Longrightarrow> initial_ballot a (reset_votes gs, [], cur) = (None, None, [])"
  "vr_final_votes cur = [] \<Longrightarrow> final_ballot a (reset_votes gs, [], cur) = (None, None, [])"
  by (simp_all add: initial_ballot_def final_ballot_def reset_votes_def)

lemma reset_tally:
  "\<forall>t. tally (reset_votes gs) t = votes_for (reset_votes gs) t"
  "fst ` set (votes (reset_votes gs)) = {}"
  by (simp_all add: tally_def votes_for_def reset_votes_def)

text \<open>The final vote.\<close>

lemma final_vote_choice_candidate:
  "final_vote_choice lower cands a vd = (Some c, r) \<Longrightarrow> c \<in> set cands"
  by (auto simp: final_vote_choice_def closest_match_def find_Some_iff
      split: if_splits list.splits option.splits)

lemma final_vote_step_votes:
  "votes (fst (final_vote_step lower alive a vd st)) = votes (fst st)
     \<and> vote_counts (fst (final_vote_step lower alive a vd st)) = vote_counts (fst st)
   \<or> (\<exists>c \<in> set (filter (\<lambda>p. p \<noteq> a) alive).
         votes (fst (final_vote_step lower alive a vd st)) = votes (cast_vote (fst st) a c)
       \<and> vote_counts (fst (final_vote_step lower alive a vd st)) = vote_counts (cast_vote (fst st) a c))"
proof -
  obtain gs rs cur where st: "st = (gs, rs, cur)" by (cases st)
  obtain vt r where ch: "final_vote_choice lower (filter (\<lambda>p. p \<noteq> a) alive) a vd = (vt, r)"
    by (cases "final_vote_choice lower (filter (\<lambda>p. p \<noteq> a) alive) a vd")
  show ?thesis
  proof (cases vt)
    case None
    then show ?thesis using ch st by (simp add: final_vote_step_def Let_def)
  next
    case (Some c)
    then have "c \<in> set (filter (\<lambda>p. p \<noteq> a) alive)"
      using ch final_vote_choice_candidate by blast
    then show ?thesis using ch st Some by (auto simp: final_vote_step_def Let_def)
  qed
qed



lemma tally_cong:
  "votes g = votes g' \<Longrightarrow> vote_counts g = vote_counts g' \<Longrightarrow>
     tally g t = tally g' t \<and> votes_for g t = votes_for g' t"
  by (simp add: tally_def votes_for_def)

lemma final_vote_step_tally:
  assumes "\<forall>t. tally (fst st) t = votes_for (fst st) t" and "a \<notin> fst ` set (votes (fst st))"
  shows "(\<forall>t. tally (fst (final_vote_step lower alive a v st)) t
                = votes_for (fst (final_vote_step lower alive a v st)) t)
       \<and> fst ` set (votes (fst (final_vote_step lower alive a v st))) \<subseteq> insert a (fst ` set (votes (fst st)))"
proof -
  from final_vote_step_votes [of lower alive a v st] show ?thesis
  proof
    assume h: "votes (fst (final_vote_step lower alive a v st)) = votes (fst st)
     \<and> vote_counts (fst (final_vote_step lower alive a v st)) = vote_counts (fst st)"
    then have "\<And>t. tally (fst (final_vote_step lower alive a v st)) t = tally (fst st) t
        \<and> votes_for (fst (final_vote_step lower alive a v st)) t = votes_for (fst st) t"
      by (intro tally_cong) simp_all
    with assms h show ?thesis by auto
  next
    assume "\<exists>c \<in> set (filter (\<lambda>p. p \<noteq> a) alive).
         votes (fst (final_vote_step lower alive a v st)) = votes (cast_vote (fst st) a c)
       \<and> vote_counts (fst (final_vote_step lower alive a v st)) = vote_counts (cast_vote (fst st) a c)"
    then obtain c where c:
        "votes (fst (final_vote_step lower alive a v st)) = votes (cast_vote (fst st) a c)"
        "vote_counts (fst (final_vote_step lower alive a v st)) = vote_counts (cast_vote (fst st) a c)"
      by blast
    have "\<And>t. tally (fst (final_vote_step lower alive a v st)) t = tally (cast_vote (fst st) a c) t
        \<and> votes_for (fst (final_vote_step lower alive a v st)) t = votes_for (cast_vote (fst st) a c) t"
      using c by (intro tally_cong) simp_all
    then show ?thesis using tally_cast_vote [OF assms, of c] c(1) by (simp add: keys_cast_vote)
  qed
qed

lemma final_votes_tally:
  assumes "distinct voters" and "set voters \<inter> fst ` set (votes (fst st)) = {}"
      and "\<forall>t. tally (fst st) t = votes_for (fst st) t"
      and "final_votes lower ask alive voters st = Inr st'"
  shows "\<forall>t. tally (fst st') t = votes_for (fst st') t"
  using assms
proof (induction voters arbitrary: st)
  case Nil
  then show ?case by simp
next
  case (Cons a voters)
  from Cons.prems(4) obtain vr where vr: "ask a (filter (\<lambda>p. p \<noteq> a) alive) = Inr vr"
      and rest: "final_votes lower ask alive voters (final_vote_step lower alive a vr st) = Inr st'"
    by (auto split: sum.splits)
  have new: "a \<notin> fst ` set (votes (fst st))" using Cons.prems(2) by auto
  note s = final_vote_step_tally [OF Cons.prems(3) new, of lower alive vr]
  have d: "distinct voters" using Cons.prems(1) by simp
  have sub: "fst ` set (votes (fst (final_vote_step lower alive a vr st))) \<subseteq> insert a (fst ` set (votes (fst st)))"
    using s by blast
  have na: "a \<notin> set voters" using Cons.prems(1) by simp
  have disj: "set voters \<inter> fst ` set (votes (fst st)) = {}" using Cons.prems(2) by auto
  have k: "set voters \<inter> fst ` set (votes (fst (final_vote_step lower alive a vr st))) = {}"
    using sub na disj by blast
  from Cons.IH [OF d k _ rest] s show ?case by blast
qed

lemma final_step_other:
  "b \<noteq> a \<Longrightarrow> final_ballot a (final_vote_step lower alive b v st) = final_ballot a st"
  by (cases st)
     (auto simp: final_ballot_def final_vote_step_def Let_def cast_vote_def update_conv'
           split: prod.splits option.splits)

lemma final_votes_other:
  "a \<notin> set voters \<Longrightarrow> final_votes lower ask alive voters st = Inr st' \<Longrightarrow>
     final_ballot a st' = final_ballot a st"
proof (induction voters arbitrary: st)
  case Nil
  then show ?case by simp
next
  case (Cons b voters)
  from Cons.prems(2) obtain vr where
      rest: "final_votes lower ask alive voters (final_vote_step lower alive b vr st) = Inr st'"
    by (auto split: sum.splits)
  from Cons.prems(1) have "b \<noteq> a" "a \<notin> set voters" by auto
  from Cons.IH [OF this(2) rest] final_step_other [OF this(1)] show ?case by simp
qed

lemma final_votes_at:
  assumes "distinct voters" and "a \<in> set voters"
      and "final_votes lower ask alive voters st = Inr st'"
  shows "\<exists>v st1. ask a (filter (\<lambda>p. p \<noteq> a) alive) = Inr v
           \<and> final_ballot a st1 = final_ballot a st
           \<and> final_ballot a st' = final_ballot a (final_vote_step lower alive a v st1)"
  using assms
proof (induction voters arbitrary: st)
  case Nil
  then show ?case by simp
next
  case (Cons b voters)
  from Cons.prems(3) obtain vr where vr: "ask b (filter (\<lambda>p. p \<noteq> b) alive) = Inr vr"
      and rest: "final_votes lower ask alive voters (final_vote_step lower alive b vr st) = Inr st'"
    by (auto split: sum.splits)
  show ?case
  proof (cases "b = a")
    case True
    have "a \<notin> set voters" using Cons.prems(1) True by simp
    from final_votes_other [OF this rest]
    have "final_ballot a st' = final_ballot a (final_vote_step lower alive a vr st)"
      using True by simp
    with vr True show ?thesis by blast
  next
    case False
    with Cons.prems have "distinct voters" "a \<in> set voters" by auto
    from Cons.IH [OF this rest] obtain v st1 where
      "ask a (filter (\<lambda>p. p \<noteq> a) alive) = Inr v"
      "final_ballot a st1 = final_ballot a (final_vote_step lower alive b vr st)"
      "final_ballot a st' = final_ballot a (final_vote_step lower alive a v st1)"
      by blast
    with final_step_other [OF False, of lower alive vr st] show ?thesis by metis
  qed
qed

lemma final_step_at:
  assumes "final_ballot a st = (None, None, [])"
      and "final_vote_choice lower (filter (\<lambda>p. p \<noteq> a) alive) a vd = (Some c, r)"
  shows "final_ballot a (final_vote_step lower alive a vd st)
           = (if c \<noteq> [] then (Some c, Some r, [\<lparr>voter = a, vote_target = Some c, vote_reason = r\<rparr>])
              else (None, None, [\<lparr>voter = a, vote_target = Some c, vote_reason = r\<rparr>]))"
  using assms
  by (cases st)
     (auto simp: final_ballot_def final_vote_step_def Let_def cast_vote_def update_conv' truthy_def)

section \<open>Voting: self-votes\<close>








section \<open>Voting: targets outside the candidate list\<close>

lemma find_split:
  "find P xs = Some c \<Longrightarrow> \<exists>pre post. xs = pre @ c # post \<and> P c \<and> (\<forall>x \<in> set pre. \<not> P x)"
proof (induction xs)
  case Nil
  then show ?case by simp
next
  case (Cons x xs)
  show ?case
  proof (cases "P x")
    case True
    with Cons.prems have "x = c" by simp
    with True have "x # xs = [] @ c # xs \<and> P c \<and> (\<forall>y \<in> set []. \<not> P y)" by simp
    then show ?thesis by blast
  next
    case False
    with Cons.prems have "find P xs = Some c" by simp
    from Cons.IH [OF this] obtain pre post where
      pp: "xs = pre @ c # post" "P c" "\<forall>y \<in> set pre. \<not> P y" by blast
    then have "x # xs = (x # pre) @ c # post \<and> P c \<and> (\<forall>y \<in> set (x # pre). \<not> P y)"
      using False by simp
    then show ?thesis by blast
  qed
qed

lemma closest_or_first:
  assumes "cands \<noteq> []"
      and c_def: "c = (case closest_match lower cands t of None \<Rightarrow> hd cands | Some m \<Rightarrow> m)"
  shows "c \<in> set cands
       \<and> ((\<exists>pre post. cands = pre @ c # post \<and> sublist (lower c) (lower t)
              \<and> (\<forall>x \<in> set pre. \<not> sublist (lower x) (lower t)))
          \<or> ((\<forall>x \<in> set cands. \<not> sublist (lower x) (lower t)) \<and> c = hd cands))"
proof (cases "closest_match lower cands t")
  case None
  then have "\<forall>x \<in> set cands. \<not> sublist (lower x) (lower t)"
    unfolding closest_match_def find_None_iff by blast
  moreover have "c = hd cands" using None by (simp add: c_def)
  ultimately show ?thesis using assms(1) by simp
next
  case (Some m)
  then have cm: "c = m" by (simp add: c_def)
  with Some have "find (\<lambda>x. sublist (lower x) (lower t)) cands = Some c"
    by (simp add: closest_match_def)
  from find_split [OF this] obtain pre post where
    "cands = pre @ c # post" "sublist (lower c) (lower t)"
    "\<forall>x \<in> set pre. \<not> sublist (lower x) (lower t)" by blast
  moreover from this(1) have "c \<in> set cands" by simp
  ultimately show ?thesis by blast
qed

lemma votes_for_pos: "map_of (votes g) a = Some c \<Longrightarrow> 0 < votes_for g c"
proof -
  assume "map_of (votes g) a = Some c"
  then have "(a, c) \<in> set (votes g)" by (rule map_of_SomeD)
  then have "(a, c) \<in> set (filter (\<lambda>e. snd e = c) (votes g))" by simp
  then show ?thesis unfolding votes_for_def by (metis length_pos_if_in_set)
qed

text \<open>
  Claim C5, as amended, for every \<open>str.lower\<close>. A voter \<open>a\<close> among distinct living players,
  and the language model answers for \<open>a\<close> with a target that is neither one of \<open>a\<close>'s
  candidates nor \<open>a\<close>. The vote then goes to one candidate \<open>c\<close>: the first candidate in list
  order whose lower-cased name occurs in the lower-cased target, or the first candidate
  of the list when no candidate's name occurs in it.

  \<^item> Initial vote, with the repository's agents: when the loop over the voters returns,
    the vote map holds \<open>c\<close> for \<open>a\<close>, the reason on record is the model's, the record has
    this one entry for \<open>a\<close>, and \<open>vote_counts\<close> holds for \<open>c\<close> the number of voters whose
    entry is \<open>c\<close>, which is not zero.

  \<^item> Final vote, when \<open>a\<close> has a candidate: the record has the one entry for \<open>a\<close>, with
    target \<open>c\<close>; and when \<open>c\<close> is not the empty name, the vote map and \<open>vote_counts\<close> hold
    the vote as in the initial vote.
\<close>

theorem out_of_candidates_vote:
  "(\<forall>st'. distinct alive \<and> a \<in> set alive \<and> vr_votes cur = []
       \<and> initial_votes (\<lambda>v cs. agent_vote lower cs (llm v)) alive alive (reset_votes gs, [], cur)
            = Inr st'
       \<and> vd_target (llm a) \<notin> set (filter (\<lambda>p. p \<noteq> a) alive) \<and> vd_target (llm a) \<noteq> a \<longrightarrow>
       (\<exists>c \<in> set (filter (\<lambda>p. p \<noteq> a) alive).
           ((\<exists>pre post. filter (\<lambda>p. p \<noteq> a) alive = pre @ c # post
                \<and> sublist (lower c) (lower (vd_target (llm a)))
                \<and> (\<forall>x \<in> set pre. \<not> sublist (lower x) (lower (vd_target (llm a)))))
            \<or> ((\<forall>x \<in> set (filter (\<lambda>p. p \<noteq> a) alive).
                    \<not> sublist (lower x) (lower (vd_target (llm a))))
                \<and> c = hd (filter (\<lambda>p. p \<noteq> a) alive)))
         \<and> initial_ballot a st' =
             (Some c, Some (vd_reason (llm a)),
              [\<lparr>voter = a, vote_target = Some c, vote_reason = vd_reason (llm a)\<rparr>])
         \<and> tally (fst st') c = votes_for (fst st') c \<and> 0 < tally (fst st') c))
   \<and> (\<forall>st' d. distinct alive \<and> a \<in> set alive \<and> vr_final_votes cur = []
       \<and> final_votes lower askf alive alive (reset_votes gs, [], cur) = Inr st'
       \<and> askf a (filter (\<lambda>p. p \<noteq> a) alive) = Inr d
       \<and> filter (\<lambda>p. p \<noteq> a) alive \<noteq> []
       \<and> vd_target d \<notin> set (filter (\<lambda>p. p \<noteq> a) alive) \<and> vd_target d \<noteq> a \<longrightarrow>
       (\<exists>c \<in> set (filter (\<lambda>p. p \<noteq> a) alive).
           ((\<exists>pre post. filter (\<lambda>p. p \<noteq> a) alive = pre @ c # post
                \<and> sublist (lower c) (lower (vd_target d))
                \<and> (\<forall>x \<in> set pre. \<not> sublist (lower x) (lower (vd_target d))))
            \<or> ((\<forall>x \<in> set (filter (\<lambda>p. p \<noteq> a) alive).
                    \<not> sublist (lower x) (lower (vd_target d)))
                \<and> c = hd (filter (\<lambda>p. p \<noteq> a) alive)))
         \<and> snd (snd (final_ballot a st'))
              = [\<lparr>voter = a, vote_target = Some c, vote_reason = vd_reason d\<rparr>]
         \<and> (c \<noteq> [] \<longrightarrow>
               final_ballot a st' =
                 (Some c, Some (vd_reason d),
                  [\<lparr>voter = a, vote_target = Some c, vote_reason = vd_reason d\<rparr>])
             \<and> tally (fst st') c = votes_for (fst st') c \<and> 0 < tally (fst st') c)))"
proof (intro conjI allI; rule impI)
  fix st'
  let ?ask = "\<lambda>v cs. agent_vote lower cs (llm v)"
  let ?cands = "filter (\<lambda>p. p \<noteq> a) alive"
  let ?t = "vd_target (llm a)"
  assume h: "distinct alive \<and> a \<in> set alive \<and> vr_votes cur = []
       \<and> initial_votes ?ask alive alive (reset_votes gs, [], cur) = Inr st'
       \<and> ?t \<notin> set ?cands \<and> ?t \<noteq> a"
  then have run: "initial_votes ?ask alive alive (reset_votes gs, [], cur) = Inr st'"
    and d: "distinct alive" and m: "a \<in> set alive" and out: "?t \<notin> set ?cands" by blast+
  from initial_votes_at [OF d m run] obtain v st1 where
    s: "agent_vote lower ?cands (llm a) = Inr v"
       "initial_ballot a st1 = initial_ballot a (reset_votes gs, [], cur)"
       "initial_ballot a st' = initial_ballot a (initial_vote_step alive a v st1)"
    by blast
  have ne: "?cands \<noteq> []"
  proof
    assume "?cands = []"
    with s(1) show False by (simp add: agent_vote_def)
  qed
  define c where "c = (case closest_match lower ?cands ?t of None \<Rightarrow> hd ?cands | Some m \<Rightarrow> m)"
  note shape = closest_or_first [OF ne c_def]
  have v: "v = VoteDict c (vd_reason (llm a))"
    using s(1) out ne by (cases ?cands) (auto simp: agent_vote_def c_def split: option.splits)
  have b0: "initial_ballot a st1 = (None, None, [])"
    using s(2) h by (simp add: reset_ballot)
  have cm: "c \<in> set ?cands" using shape by blast
  have "v = VoteDict c (vd_reason (llm a)) \<or> (v = VoteStr c \<and> vd_reason (llm a) = ''No reason given'')"
    using v by simp
  from initial_step_cast [OF b0 cm this] s(3)
  have ballot: "initial_ballot a st' =
      (Some c, Some (vd_reason (llm a)),
       [\<lparr>voter = a, vote_target = Some c, vote_reason = vd_reason (llm a)\<rparr>])" by simp
  have inv: "\<forall>t. tally (fst st') t = votes_for (fst st') t"
    by (rule initial_votes_tally [OF d _ _ run]) (simp_all add: reset_tally)
  have "map_of (votes (fst st')) a = Some c" using ballot by (simp add: initial_ballot_def)
  from votes_for_pos [OF this] inv have pos: "0 < tally (fst st') c" by simp
  from shape ballot inv pos
  show "\<exists>c \<in> set ?cands.
           ((\<exists>pre post. ?cands = pre @ c # post
                \<and> sublist (lower c) (lower ?t)
                \<and> (\<forall>x \<in> set pre. \<not> sublist (lower x) (lower ?t)))
            \<or> ((\<forall>x \<in> set ?cands. \<not> sublist (lower x) (lower ?t)) \<and> c = hd ?cands))
         \<and> initial_ballot a st' =
             (Some c, Some (vd_reason (llm a)),
              [\<lparr>voter = a, vote_target = Some c, vote_reason = vd_reason (llm a)\<rparr>])
         \<and> tally (fst st') c = votes_for (fst st') c \<and> 0 < tally (fst st') c"
    by blast
next
  fix st' d
  let ?cands = "filter (\<lambda>p. p \<noteq> a) alive"
  let ?t = "vd_target d"
  assume h: "distinct alive \<and> a \<in> set alive \<and> vr_final_votes cur = []
       \<and> final_votes lower askf alive alive (reset_votes gs, [], cur) = Inr st'
       \<and> askf a ?cands = Inr d \<and> ?cands \<noteq> []
       \<and> ?t \<notin> set ?cands \<and> ?t \<noteq> a"
  then have run: "final_votes lower askf alive alive (reset_votes gs, [], cur) = Inr st'"
    and dist: "distinct alive" and m: "a \<in> set alive" and out: "?t \<notin> set ?cands"
    and ne: "?cands \<noteq> []" and other: "?t \<noteq> a" and ask: "askf a ?cands = Inr d"
    by blast+
  from final_votes_at [OF dist m run] ask obtain st1 where
    s: "final_ballot a st1 = final_ballot a (reset_votes gs, [], cur)"
       "final_ballot a st' = final_ballot a (final_vote_step lower alive a d st1)"
    by auto
  define c where "c = (case closest_match lower ?cands ?t of None \<Rightarrow> hd ?cands | Some m \<Rightarrow> m)"
  note shape = closest_or_first [OF ne c_def]
  have ch: "final_vote_choice lower ?cands a d = (Some c, vd_reason d)"
    using out other ne
    by (cases ?cands) (auto simp: final_vote_choice_def c_def split: option.splits)
  have b0: "final_ballot a st1 = (None, None, [])"
    using s(1) h by (simp add: reset_ballot)
  note fb = final_step_at [OF b0 ch]
  have rec: "snd (snd (final_ballot a st'))
      = [\<lparr>voter = a, vote_target = Some c, vote_reason = vd_reason d\<rparr>]"
    using fb s(2) by simp
  have inv: "\<forall>t. tally (fst st') t = votes_for (fst st') t"
    by (rule final_votes_tally [OF dist _ _ run]) (simp_all add: reset_tally)
  have cast: "final_ballot a st' =
        (Some c, Some (vd_reason d),
         [\<lparr>voter = a, vote_target = Some c, vote_reason = vd_reason d\<rparr>])
      \<and> tally (fst st') c = votes_for (fst st') c \<and> 0 < tally (fst st') c"
    if "c \<noteq> []"
  proof -
    from that fb s(2) have ballot: "final_ballot a st' =
        (Some c, Some (vd_reason d),
         [\<lparr>voter = a, vote_target = Some c, vote_reason = vd_reason d\<rparr>])" by simp
    then have "map_of (votes (fst st')) a = Some c" by (simp add: final_ballot_def)
    from votes_for_pos [OF this] inv ballot show ?thesis by simp
  qed
  from shape rec cast
  show "\<exists>c \<in> set ?cands.
           ((\<exists>pre post. ?cands = pre @ c # post
                \<and> sublist (lower c) (lower ?t)
                \<and> (\<forall>x \<in> set pre. \<not> sublist (lower x) (lower ?t)))
            \<or> ((\<forall>x \<in> set ?cands. \<not> sublist (lower x) (lower ?t)) \<and> c = hd ?cands))
         \<and> snd (snd (final_ballot a st'))
              = [\<lparr>voter = a, vote_target = Some c, vote_reason = vd_reason d\<rparr>]
         \<and> (c \<noteq> [] \<longrightarrow>
               final_ballot a st' =
                 (Some c, Some (vd_reason d),
                  [\<lparr>voter = a, vote_target = Some c, vote_reason = vd_reason d\<rparr>])
             \<and> tally (fst st') c = votes_for (fst st') c \<and> 0 < tally (fst st') c)"
    by blast
qed

text \<open>
  The claim as first stated fails: the target names two candidates, Ben and Di, so it does
  not match exactly one candidate, yet the vote does not fall back to the first
  candidate Ann; it goes to Ben, the first candidate that matches.
\<close>

theorem out_of_candidates_vote_counterexample:
  "sublist (ascii_lower ''Ben'') (ascii_lower ''ben or di'')
   \<and> sublist (ascii_lower ''Di'') (ascii_lower ''ben or di'')
   \<and> \<not> sublist (ascii_lower ''Ann'') (ascii_lower ''ben or di'')
   \<and> ''ben or di'' \<notin> set [''Ann'', ''Ben'', ''Di'']
   \<and> agent_vote ascii_lower [''Ann'', ''Ben'', ''Di''] (VoteDecision ''ben or di'' ''unsure'')
        = Inr (VoteDict ''Ben'' ''unsure'')
   \<and> final_vote_choice ascii_lower [''Ann'', ''Ben'', ''Di''] ''Eve''
        (VoteDecision ''ben or di'' ''unsure'')
        = (Some ''Ben'', ''unsure'')"
  by code_simp

text \<open>
  Eve's model answers with a sentence that contains Ben's name in capitals: in the
  initial and in the final vote her vote goes to Ben and is counted for Ben.
\<close>

theorem out_of_candidates_vote_witness:
  "map_sum id (initial_ballot ''Eve'')
      (initial_votes (\<lambda>v cs. agent_vote ascii_lower cs (ex_llm_shout v))
         [''Ann'', ''Ben'', ''Di'', ''Eve''] [''Ann'', ''Ben'', ''Di'', ''Eve'']
         (reset_votes ex_four, [], ex_round))
     = Inr (Some ''Ben'', Some ''hunch'',
            [\<lparr>voter = ''Eve'', vote_target = Some ''Ben'', vote_reason = ''hunch''\<rparr>])
   \<and> 0 < tally (fst (projr (initial_votes (\<lambda>v cs. agent_vote ascii_lower cs (ex_llm_shout v))
         [''Ann'', ''Ben'', ''Di'', ''Eve''] [''Ann'', ''Ben'', ''Di'', ''Eve'']
         (reset_votes ex_four, [], ex_round)))) ''Ben''
   \<and> map_sum id (final_ballot ''Eve'')
      (final_votes ascii_lower (\<lambda>v cs. Inr (ex_llm_shout v))
         [''Ann'', ''Ben'', ''Di'', ''Eve''] [''Ann'', ''Ben'', ''Di'', ''Eve'']
         (reset_votes ex_four, [], ex_round))
     = Inr (Some ''Ben'', Some ''hunch'',
            [\<lparr>voter = ''Eve'', vote_target = Some ''Ben'', vote_reason = ''hunch''\<rparr>])
   \<and> 0 < tally (fst (projr (final_votes ascii_lower (\<lambda>v cs. Inr (ex_llm_shout v))
         [''Ann'', ''Ben'', ''Di'', ''Eve''] [''Ann'', ''Ben'', ''Di'', ''Eve'']
         (reset_votes ex_four, [], ex_round)))) ''Ben''"
proof -
  let ?al = "[''Ann'', ''Ben'', ''Di'', ''Eve'']"
  let ?st = "(reset_votes ex_four, [], ex_round)"
  let ?I = "initial_votes (\<lambda>v cs. agent_vote ascii_lower cs (ex_llm_shout v)) ?al ?al ?st"
  let ?F = "final_votes ascii_lower (\<lambda>v cs. Inr (ex_llm_shout v)) ?al ?al ?st"
  note t = out_of_candidates_vote [where lower = ascii_lower and alive = ?al and a = "''Eve''"
      and cur = ex_round and gs = ex_four and llm = ex_llm_shout
      and askf = "\<lambda>v cs. Inr (ex_llm_shout v)"]
  note t1 = t [THEN conjunct1, rule_format]
  note t2 = t [THEN conjunct2, rule_format]
  have base: "distinct ?al" "''Eve'' \<in> set ?al" "vr_votes ex_round = []"
      "vr_final_votes ex_round = []"
    by (simp_all add: ex_round_def)
  have out: "vd_target (ex_llm_shout ''Eve'') \<notin> set (filter (\<lambda>p. p \<noteq> ''Eve'') ?al)"
      "vd_target (ex_llm_shout ''Eve'') \<noteq> ''Eve''" "filter (\<lambda>p. p \<noteq> ''Eve'') ?al \<noteq> []"
    by (simp_all add: ex_llm_shout_def)
  have ei: "map_sum id (initial_ballot ''Eve'') ?I
     = Inr (Some ''Ben'', Some ''hunch'',
            [\<lparr>voter = ''Eve'', vote_target = Some ''Ben'', vote_reason = ''hunch''\<rparr>])"
    by code_simp
  then obtain si where i: "?I = Inr si" by (cases ?I) auto
  have "\<exists>c \<in> set (filter (\<lambda>p. p \<noteq> ''Eve'') ?al).
          initial_ballot ''Eve'' si =
             (Some c, Some (vd_reason (ex_llm_shout ''Eve'')),
              [\<lparr>voter = ''Eve'', vote_target = Some c,
                vote_reason = vd_reason (ex_llm_shout ''Eve'')\<rparr>])
         \<and> 0 < tally (fst si) c"
    using t1 [of si, OF conjI [OF base(1) conjI [OF base(2) conjI [OF base(3)
          conjI [OF i conjI [OF out(1) out(2)]]]]]]
    by blast
  then obtain c where c: "initial_ballot ''Eve'' si =
             (Some c, Some (vd_reason (ex_llm_shout ''Eve'')),
              [\<lparr>voter = ''Eve'', vote_target = Some c,
                vote_reason = vd_reason (ex_llm_shout ''Eve'')\<rparr>])"
      "0 < tally (fst si) c" by blast
  from ei i c(1) have "c = ''Ben''" by simp
  with c(2) have 1: "0 < tally (fst si) ''Ben''" by simp
  have ef: "map_sum id (final_ballot ''Eve'') ?F
     = Inr (Some ''Ben'', Some ''hunch'',
            [\<lparr>voter = ''Eve'', vote_target = Some ''Ben'', vote_reason = ''hunch''\<rparr>])"
    by code_simp
  then obtain sf where f: "?F = Inr sf" by (cases ?F) auto
  have af: "(\<lambda>v cs. Inr (ex_llm_shout v)) ''Eve'' (filter (\<lambda>p. p \<noteq> ''Eve'') ?al)
      = (Inr (ex_llm_shout ''Eve'') :: error + VoteDecision)" by simp
  have "\<exists>c \<in> set (filter (\<lambda>p. p \<noteq> ''Eve'') ?al).
          snd (snd (final_ballot ''Eve'' sf))
              = [\<lparr>voter = ''Eve'', vote_target = Some c,
                  vote_reason = vd_reason (ex_llm_shout ''Eve'')\<rparr>]
         \<and> (c \<noteq> [] \<longrightarrow> 0 < tally (fst sf) c)"
    using t2 [of sf "ex_llm_shout ''Eve''", OF conjI [OF base(1) conjI [OF base(2)
          conjI [OF base(4) conjI [OF f conjI [OF af conjI [OF out(3)
          conjI [OF out(1) out(2)]]]]]]]]
    by blast
  then obtain c' where c': "snd (snd (final_ballot ''Eve'' sf))
              = [\<lparr>voter = ''Eve'', vote_target = Some c',
                  vote_reason = vd_reason (ex_llm_shout ''Eve'')\<rparr>]"
      "c' \<noteq> [] \<longrightarrow> 0 < tally (fst sf) c'" by blast
  from ef f c'(1) have "c' = ''Ben''" by simp
  with c'(2) have 2: "0 < tally (fst sf) ''Ben''" by simp
  from ei ef 1 2 i f show ?thesis by simp
qed

section \<open>Voting: a tied final vote, and a request that raises\<close>

text \<open>
  Ties in the initial vote: three sub-rounds that each tie Ben and Ann end the day with
  nobody eliminated and three tie entries in the voting history, in order.
\<close>

lemma three_round_tie_example:
  "\<not> isl (run_voting_phase ascii_lower ex_col_tie ex_four)
   \<and> elimination_history (projr (run_voting_phase ascii_lower ex_col_tie ex_four)) = []
   \<and> map (\<lambda>e. (vr_voting_round e, tied_candidates e, tie_votes e, eliminated e))
        (voting_history (projr (run_voting_phase ascii_lower ex_col_tie ex_four)))
      = [(1, Some [''Ben'', ''Ann''], Some 2, None), (2, Some [''Ben'', ''Ann''], Some 2, None),
         (3, Some [''Ben'', ''Ann''], Some 2, None)]"
  by code_simp

text \<open>
  Claim C3 at a day of four voters. Sub-round 1: Ben is put on trial, defends himself, and
  the final vote ties Ben and Ann two to two. The sub-round's body does not return and
  appends nothing to the voting history; sub-round 2 is run, Ben is eliminated there, and
  the voting history of the day holds that one entry only.
\<close>

theorem final_tie_continues:
  "map_sum id (\<lambda>(g, returned). (vote_counts g, elimination_history g, voting_history g, returned))
      (voting_subround ascii_lower ex_col_final_tie [''Ann'', ''Ben'', ''Di'', ''Eve''] 1
         (reset_votes (ex_four\<lparr>phase := DAY_VOTING\<rparr>)))
     = Inr ([(''Ben'', 2), (''Ann'', 2)], [], [], False)
   \<and> \<not> isl (run_voting_phase ascii_lower ex_col_final_tie ex_four)
   \<and> elimination_history (projr (run_voting_phase ascii_lower ex_col_final_tie ex_four)) = [''Ben'']
   \<and> map vr_voting_round (voting_history (projr (run_voting_phase ascii_lower ex_col_final_tie ex_four))) = [2]"
  by code_simp

lemma failed_call_decision:
  "generate_vote_decision search (Inl e) = VoteDecision [] []"
  by (simp add: generate_vote_decision_def generate_response_def parse_field_def sublist_code)

text \<open>
  Claim C6 in the voting steps, on the day of four voters. When Di's \<open>agent.vote\<close>
  request raises, the exception leaves \<open>_run_voting_phase\<close>, which has no handler around
  the request. When instead the API call behind Di's request fails inside the language-model
  interface, the interface answers with an empty decision, and Di's ballot is cast for Ann,
  the first of Di's candidates, in the initial vote and in the final vote alike: the
  failure is not an abstention.
\<close>

theorem vote_error_halts:
  "run_voting_phase ascii_lower ex_col_raise ex_four = Inl (Raised ''timeout'')
   \<and> agent_vote ascii_lower [''Ann'', ''Ben'', ''Eve''] (generate_vote_decision search (Inl (Raised ''timeout'')))
        = Inr (VoteDict ''Ann'' [])
   \<and> map_of (votes (fst (initial_vote_step [''Ann'', ''Ben'', ''Di'', ''Eve''] ''Di''
          (VoteDict ''Ann'' []) (ex_four, [], ex_round)))) ''Di'' = Some ''Ann''
   \<and> final_vote_choice ascii_lower [''Ann'', ''Ben'', ''Eve''] ''Di''
        (generate_vote_decision search (Inl (Raised ''timeout''))) = (Some ''Ann'', [])"
proof -
  have 1: "run_voting_phase ascii_lower ex_col_raise ex_four = Inl (Raised ''timeout'')"
    by code_simp
  have 2: "agent_vote ascii_lower [''Ann'', ''Ben'', ''Eve''] (VoteDecision [] []) = Inr (VoteDict ''Ann'' [])"
    by code_simp
  have 3: "map_of (votes (fst (initial_vote_step [''Ann'', ''Ben'', ''Di'', ''Eve''] ''Di''
          (VoteDict ''Ann'' []) (ex_four, [], ex_round)))) ''Di'' = Some ''Ann''"
    by code_simp
  have 4: "final_vote_choice ascii_lower [''Ann'', ''Ben'', ''Eve''] ''Di'' (VoteDecision [] []) = (Some ''Ann'', [])"
    by code_simp
  from 1 2 3 4 show ?thesis by (simp only: failed_call_decision) 
qed

end
